theory Spec2Isabelle
  imports Complex_Main "HOL-Library.Sublist"
begin

section \<open>Numbers\<close>

text \<open>
  JavaScript numbers are taken as exact reals: coordinates, distances, angles and
  time stamps are of type \<open>real\<close>, and the library functions \<open>Math.atan2\<close>,
  \<open>Math.sqrt\<close>, \<open>Math.round\<close>, \<open>Math.abs\<close> and the remainder operator are
  their mathematical counterparts (no rounding error, no NaN, no signed zero).
\<close>

definition Math_atan2 :: "real \<Rightarrow> real \<Rightarrow> real" where
  \<comment> \<open>\<open>Math.atan2(y, x)\<close>: the angle of the vector \<open>(x, y)\<close>, in \<open>(-pi, pi]\<close>;
      \<open>atan2(0, 0)\<close> is \<open>0\<close>.\<close>
  "Math_atan2 y x =
     (if 0 < x then arctan (y / x)
      else if x < 0 then (if 0 \<le> y then arctan (y / x) + pi else arctan (y / x) - pi)
      else if 0 < y then pi / 2
      else if y < 0 then - (pi / 2)
      else 0)"

definition Math_round :: "real \<Rightarrow> real" where
  \<comment> \<open>\<open>Math.round\<close>: the nearest integer, a tie going up.\<close>
  "Math_round v = of_int \<lfloor>v + 1 / 2\<rfloor>"

definition js_rem :: "real \<Rightarrow> real \<Rightarrow> real" where
  \<comment> \<open>The operator \<open>%\<close>: the remainder of the division truncated towards zero, so
      that the result has the sign of the dividend.\<close>
  "js_rem a n =
     (let q = a / n in a - n * of_int (if 0 \<le> q then \<lfloor>q\<rfloor> else \<lceil>q\<rceil>))"

section \<open>Point2D (src/core/classes/Point2D.js)\<close>

record Point2D =
  x :: real
  y :: real

definition add :: "Point2D \<Rightarrow> Point2D \<Rightarrow> Point2D" where
  "add this point = \<lparr>x = x this + x point, y = y this + y point\<rparr>"

definition subtract :: "Point2D \<Rightarrow> Point2D \<Rightarrow> Point2D" where
  "subtract this point = \<lparr>x = x this - x point, y = y this - y point\<rparr>"

definition angleTo :: "Point2D \<Rightarrow> Point2D \<Rightarrow> real" where
  "angleTo this point = Math_atan2 (y point - y this) (x point - x this)"

text \<open>
  Point2D objects live in a store, a list of the objects allocated so far, an object's
  address being its position. A method receives the addresses of \<open>this\<close> and of its
  argument; \<open>new Point2D(...)\<close> allocates at the end of the store and yields the new
  address.
\<close>

type_synonym store = "Point2D list"

definition new_Point2D :: "store \<Rightarrow> Point2D \<Rightarrow> store \<times> nat" where
  "new_Point2D st p = (st @ [p], length st)"

definition add_method :: "store \<Rightarrow> nat \<Rightarrow> nat \<Rightarrow> store \<times> nat" where
  "add_method st this point = new_Point2D st (add (st ! this) (st ! point))"

definition subtract_method :: "store \<Rightarrow> nat \<Rightarrow> nat \<Rightarrow> store \<times> nat" where
  "subtract_method st this point = new_Point2D st (subtract (st ! this) (st ! point))"

section \<open>util (bundle.js, module 5)\<close>

definition distanceBetweenTwoPoints :: "real \<Rightarrow> real \<Rightarrow> real \<Rightarrow> real \<Rightarrow> real" where
  \<comment> \<open>The parameters are \<open>x0, x1, y0, y1\<close>, in this order.\<close>
  "distanceBetweenTwoPoints x0 x1 y0 y1 =
     (let dist = sqrt ((x1 - x0) * (x1 - x0) + (y1 - y0) * (y1 - y0))
      in Math_round (100 * dist) / 100)"

definition getAngle :: "real \<Rightarrow> real \<Rightarrow> real \<Rightarrow> real \<Rightarrow> real" where
  "getAngle originX originY projectionX projectionY =
     (let angle = Math_atan2 (projectionY - originY) (projectionX - originX) * (180 / pi)
      in 360 - (if angle < 0 then 360 + angle else angle))"

definition getAngularDistance :: "real \<Rightarrow> real \<Rightarrow> real" where
  "getAngularDistance start end' =
     (let angle = js_rem (end' - start) 360;
          sign = (if angle < 0 then 1 else - 1);
          angle = \<bar>angle\<bar>
      in if 180 < angle then sign * (360 - angle) else sign * angle)"

section \<open>Arrays\<close>

text \<open>
  A JavaScript array with holes is a list of options, \<open>None\<close> being a hole (it reads as
  \<open>undefined\<close>). Reading past the end gives \<open>undefined\<close>; writing past the end extends
  the array, the slots in between being holes.
\<close>

definition array_get :: "'a option list \<Rightarrow> nat \<Rightarrow> 'a option" where
  "array_get xs i = (if i < length xs then xs ! i else None)"

definition array_set :: "'a option list \<Rightarrow> nat \<Rightarrow> 'a \<Rightarrow> 'a option list" where
  "array_set xs i v =
     (if i < length xs then xs[i := Some v]
      else xs @ replicate (i - length xs) None @ [Some v])"

section \<open>Events\<close>

text \<open>
  A function that can throw returns a sum, the error on the left. What a thrown
  exception leaves of objects changed before it is not modelled.
\<close>

datatype error = TypeError | NaN

datatype phase = Start | Move | End

definition normalizeEvent :: "string \<Rightarrow> phase option" where
  \<comment> \<open>The table \<open>util.normalizeEvent\<close> (bundle.js, module 5); a type that is not in the
      table reads as \<open>undefined\<close>.\<close>
  "normalizeEvent =
     map_of [(''mousedown'', Start), (''touchstart'', Start), (''pointerdown'', Start),
             (''mousemove'', Move), (''touchmove'', Move), (''pointermove'', Move),
             (''mouseup'', End), (''touchend'', End), (''pointerup'', End)]"

record Touch =
  t_identifier :: nat
  t_clientX :: real
  t_clientY :: real

text \<open>
  The browser's event, as far as the library reads it. \<open>touches\<close> and \<open>changedTouches\<close>
  are \<open>None\<close> on an event that is not a touch event.
\<close>

record Event =
  ev_type :: string
  clientX :: real
  clientY :: real
  touches :: "Touch list option"
  changedTouches :: "Touch list option"

record ZingEvent =
  originalEvent :: Event
  ztype :: "phase option"
  ex :: real
  ey :: real

definition new_ZingEvent :: "Event \<Rightarrow> nat option \<Rightarrow> error + ZingEvent" where
  \<comment> \<open>bundle.js, module 17. The second argument is the identifier, \<open>None\<close> when the
      caller passes none. A touch event whose changed touches do not hold the identifier
      makes \<open>find\<close> return \<open>undefined\<close>, and reading \<open>clientX\<close> of it throws.\<close>
  "new_ZingEvent ev ident =
     (case (touches ev, changedTouches ev) of
        (Some ts, Some cts) \<Rightarrow>
          (case find (\<lambda>t. Some (t_identifier t) = ident) cts of
             None \<Rightarrow> Inl TypeError
           | Some t \<Rightarrow>
               Inr \<lparr>originalEvent = ev, ztype = normalizeEvent (ev_type ev),
                    ex = t_clientX t, ey = t_clientY t\<rparr>)
      | _ \<Rightarrow>
          Inr \<lparr>originalEvent = ev, ztype = normalizeEvent (ev_type ev),
               ex = clientX ev, ey = clientY ev\<rparr>)"

section \<open>Input (Input.js; bundle.js, module 16)\<close>

record sample =
  time :: real
  sx :: real
  sy :: real

text \<open>
  The progress object of one gesture on one input: a plain object, to which the gestures
  add properties. A property that has not been assigned is \<open>None\<close>.
\<close>

record gesture_progress =
  active :: "bool option"
  lastEmitted :: "Point2D option"
  initialAngle :: "real option"
  previousAngle :: "real option"
  distance :: "real option"
  change :: "real option"
  moves :: "sample list option"
  start :: "real option"

definition empty_progress :: gesture_progress where
  "empty_progress =
     \<lparr>active = None, lastEmitted = None, initialAngle = None, previousAngle = None,
      distance = None, change = None, moves = None, start = None\<rparr>"

text \<open>
  The event wrapper of the refactored core (\<open>ZingEvent.js\<close>) is not among the sources,
  so the class \<open>Input\<close> takes the constructor of its events as a parameter \<open>mk\<close>;
  the bundled build uses \<open>new_ZingEvent\<close>.
\<close>

text \<open>The field \<open>input_id\<close> is the property \<open>identifier\<close> of the class.\<close>

record 'e Input =
  initial :: 'e
  current :: 'e
  previous :: 'e
  input_id :: nat
  progress :: "string \<rightharpoonup> gesture_progress"

definition new_Input ::
  "(Event \<Rightarrow> nat option \<Rightarrow> error + 'e) \<Rightarrow> Event \<Rightarrow> nat \<Rightarrow> error + 'e Input" where
  "new_Input mk ev ident =
     (case mk ev (Some ident) of
        Inl err \<Rightarrow> Inl err
      | Inr currentEvent \<Rightarrow>
          Inr \<lparr>initial = currentEvent, current = currentEvent, previous = currentEvent,
               input_id = ident, progress = Map.empty\<rparr>)"

definition Input_update ::
  "(Event \<Rightarrow> nat option \<Rightarrow> error + 'e) \<Rightarrow> 'e Input \<Rightarrow> Event \<Rightarrow> nat option \<Rightarrow> error + 'e Input"
  where
  "Input_update mk this ev touchIdentifier =
     (case mk ev touchIdentifier of
        Inl err \<Rightarrow> Inl err
      | Inr z \<Rightarrow> Inr (this\<lparr>previous := current this, current := z\<rparr>))"

definition getGestureProgress :: "'e Input \<Rightarrow> string \<Rightarrow> gesture_progress \<times> 'e Input" where
  \<comment> \<open>Yields the progress object and the input, in which the object has been created
      when it was missing.\<close>
  "getGestureProgress this gid =
     (case progress this gid of
        None \<Rightarrow> (empty_progress, this\<lparr>progress := (progress this)(gid \<mapsto> empty_progress)\<rparr>)
      | Some p \<Rightarrow> (p, this))"

definition setGestureProgress :: "'e Input \<Rightarrow> string \<Rightarrow> gesture_progress \<Rightarrow> 'e Input" where
  \<comment> \<open>The assignments to the properties of a progress object, written back.\<close>
  "setGestureProgress this gid p = this\<lparr>progress := (progress this)(gid \<mapsto> p)\<rparr>"

definition resetProgress :: "'e Input \<Rightarrow> string \<Rightarrow> 'e Input" where
  "resetProgress this gid = this\<lparr>progress := (progress this)(gid \<mapsto> empty_progress)\<rparr>"

section \<open>State of the refactored core (src/core/State.js)\<close>

text \<open>
  \<open>this.inputs\<close> is an array indexed by the identifier, with holes. The table
  \<open>util.normalizeEvent\<close> of the refactored core is not among the sources; it is taken
  to be the table of the bundled build.
\<close>

definition updateInput ::
  "(Event \<Rightarrow> nat option \<Rightarrow> error + 'e) \<Rightarrow> 'e Input option list \<Rightarrow> Event \<Rightarrow> nat
     \<Rightarrow> error + 'e Input option list" where
  "updateInput mk inputs ev ident =
     (if normalizeEvent (ev_type ev) = Some Start then
        (case new_Input mk ev ident of
           Inl err \<Rightarrow> Inl err
         | Inr input \<Rightarrow> Inr (array_set inputs ident input))
      else
        (case array_get inputs ident of
           Some input \<Rightarrow>
             (case Input_update mk input ev None of
                Inl err \<Rightarrow> Inl err
              | Inr input' \<Rightarrow> Inr (inputs[ident := Some input']))
         | None \<Rightarrow> Inr inputs))"

section \<open>State of the bundled build (bundle.js, module 9)\<close>

record DOMRect =
  r_left :: real
  r_top :: real
  r_width :: real
  r_height :: real

definition isInside :: "real \<Rightarrow> real \<Rightarrow> DOMRect \<Rightarrow> bool" where
  \<comment> \<open>\<open>util.isInside\<close>, on the bounding rectangle of the element.\<close>
  "isInside px py rect =
     (r_left rect < px \<and> px < r_left rect + r_width rect \<and>
      r_top rect < py \<and> py < r_top rect + r_height rect)"

definition findInputById :: "'e Input list \<Rightarrow> nat \<Rightarrow> 'e Input option" where
  \<comment> \<open>In the minified bundle, the function \<open>u\<close> of module 9.\<close>
  "findInputById inputs ident = find (\<lambda>input. input_id input = ident) inputs"

fun replaceInputById :: "'e Input list \<Rightarrow> nat \<Rightarrow> 'e Input \<Rightarrow> 'e Input list" where
  \<comment> \<open>The object that \<open>findInputById\<close> found is updated in place: the first input of the
      list with this identifier.\<close>
  "replaceInputById [] ident v = []"
| "replaceInputById (input # rest) ident v =
     (if input_id input = ident then v # rest else input # replaceInputById rest ident v)"

definition resetInputs :: "'e Input list" where
  "resetInputs = []"

definition update ::
  "ZingEvent Input list \<Rightarrow> Event \<Rightarrow> nat \<Rightarrow> DOMRect \<Rightarrow> error + ZingEvent Input list" where
  \<comment> \<open>The function declared inside \<open>State.updateInputs\<close> (\<open>n\<close> in the minified
      bundle), which is called once for every changed touch, or once for the pointer or
      the mouse; the state is its list of inputs, the region's element is its bounding
      rectangle.\<close>
  "update inputs ev ident regionElement =
     (let eventType = normalizeEvent (ev_type ev);
          input = findInputById inputs ident
      in if eventType = Some Start \<and> input \<noteq> None then Inr resetInputs
         else if eventType \<noteq> Some Start \<and>
                 (case input of
                    Some i \<Rightarrow> \<not> isInside (ex (current i)) (ey (current i)) regionElement
                  | None \<Rightarrow> False)
              then Inr resetInputs
         else if eventType \<noteq> Some Start \<and> input = None then Inr resetInputs
         else if eventType = Some Start then
           (case new_Input new_ZingEvent ev ident of
              Inl err \<Rightarrow> Inl err
            | Inr i \<Rightarrow> Inr (inputs @ [i]))
         else
           (case input of
              None \<Rightarrow> Inr resetInputs
            | Some i \<Rightarrow>
                (case Input_update new_ZingEvent i ev (Some ident) of
                   Inl err \<Rightarrow> Inl err
                 | Inr i' \<Rightarrow> Inr (replaceInputById inputs ident i'))))"

definition numActiveInputs :: "ZingEvent Input list \<Rightarrow> nat" where
  "numActiveInputs inputs = length (filter (\<lambda>input. ztype (current input) \<noteq> Some End) inputs)"

section \<open>Gesture (bundle.js, module 4)\<close>

text \<open>
  Values other than numbers: a property that holds \<open>null\<close> or \<open>undefined\<close> is \<open>None\<close>.
  Arithmetic on \<open>undefined\<close> gives NaN, which the reals do not have: where the code
  would compute it, the model stops with the error \<open>NaN\<close>.
\<close>

definition truthy :: "real option \<Rightarrow> bool" where
  \<comment> \<open>A number in a condition: \<open>undefined\<close> and 0 count as false.\<close>
  "truthy v = (case v of None \<Rightarrow> False | Some r \<Rightarrow> r \<noteq> 0)"

definition Number_MAX_VALUE :: real where
  "Number_MAX_VALUE = (2 ^ 53 - 1) * 2 ^ 971"

definition Number_MIN_VALUE :: real where
  "Number_MIN_VALUE = 1 / 2 ^ 1074"

record Gesture =
  gtype :: "string option"
  gid :: "string option"

definition getId :: "'a Gesture_scheme \<Rightarrow> string option" where
  "getId this = (case gid this of Some i \<Rightarrow> Some i | None \<Rightarrow> gtype this)"

definition property_key :: "string option \<Rightarrow> string" where
  \<comment> \<open>A value used as the name of a property: \<open>null\<close> becomes the string \<open>null\<close>.\<close>
  "property_key v = (case v of None \<Rightarrow> ''null'' | Some s \<Rightarrow> s)"

definition getMidpoint :: "real \<Rightarrow> real \<Rightarrow> real \<Rightarrow> real \<Rightarrow> Point2D" where
  "getMidpoint x0 x1 y0 y1 = \<lparr>x = (x0 + x1) / 2, y = (y0 + y1) / 2\<rparr>"

definition getVelocity :: "real \<Rightarrow> real \<Rightarrow> real \<Rightarrow> real \<Rightarrow> real \<Rightarrow> real \<Rightarrow> real" where
  "getVelocity startX startY startTime endX endY endTime =
     (let dist = distanceBetweenTwoPoints startX endX startY endY
      in dist / (endTime - startTime))"

definition isWithin :: "real \<Rightarrow> real \<Rightarrow> real \<Rightarrow> real \<Rightarrow> real \<Rightarrow> bool" where
  "isWithin cx cy px py tol = (\<bar>cy - py\<bar> \<le> tol \<and> \<bar>cx - px\<bar> \<le> tol)"

section \<open>Pan (bundle.js, module 10)\<close>

record Pan = Gesture +
  numInputs :: nat
  threshold :: real

record Pan_options =
  po_numInputs :: "nat option"
  po_threshold :: "real option"

definition new_Pan :: "Pan_options option \<Rightarrow> Pan" where
  "new_Pan options =
     \<lparr>gtype = Some ''pan'', gid = None,
      numInputs = (case options of
                     Some opt \<Rightarrow> (case po_numInputs opt of
                                   Some n \<Rightarrow> if n \<noteq> 0 then n else 1 | None \<Rightarrow> 1)
                   | None \<Rightarrow> 1),
      threshold = (case options of
                     Some opt \<Rightarrow> (case po_threshold opt of
                                   Some t \<Rightarrow> if t \<noteq> 0 then t else 1 | None \<Rightarrow> 1)
                   | None \<Rightarrow> 1)\<rparr>"

record PanData =
  distanceFromOrigin :: real
  directionFromOrigin :: real
  currentDirection :: real
  change :: Point2D

definition Pan_start :: "Pan \<Rightarrow> ZingEvent Input list \<Rightarrow> ZingEvent Input list" where
  "Pan_start this inputs =
     map (\<lambda>input.
            case getGestureProgress input (property_key (getId this)) of
              (prog, input1) \<Rightarrow>
                setGestureProgress input1 (property_key (getId this))
                  (prog\<lparr>active := Some True,
                     lastEmitted := Some \<lparr>x = ex (current input), y = ey (current input)\<rparr>\<rparr>))
         inputs"

definition packData :: "ZingEvent Input \<Rightarrow> Point2D \<Rightarrow> PanData" where
  \<comment> \<open>The function declared inside \<open>Pan.move\<close> (\<open>r\<close> in the minified bundle); the
      second argument is \<open>progress.lastEmitted\<close>.\<close>
  "packData input lastEmitted' =
     \<lparr>distanceFromOrigin =
        distanceBetweenTwoPoints (ex (initial input)) (ex (current input))
          (ey (initial input)) (ey (current input)),
      directionFromOrigin =
        getAngle (ex (initial input)) (ey (initial input))
          (ex (current input)) (ey (current input)),
      currentDirection =
        getAngle (x lastEmitted') (y lastEmitted') (ex (current input)) (ey (current input)),
      change =
        \<lparr>x = ex (current input) - x lastEmitted', y = ey (current input) - y lastEmitted'\<rparr>\<rparr>"

text \<open>
  The body of \<open>inputs.forEach\<close> in \<open>Pan.move\<close>, over the inputs from position \<open>index\<close>
  on: the array \<open>output.data\<close> so far is \<open>data\<close>. An input whose progress has no
  \<open>lastEmitted\<close> makes the read of \<open>lastEmitted.x\<close> throw.
\<close>

fun Pan_move_forEach ::
  "Pan \<Rightarrow> nat \<Rightarrow> ZingEvent Input list \<Rightarrow> PanData option list
     \<Rightarrow> error + (PanData option list \<times> ZingEvent Input list)" where
  "Pan_move_forEach this index [] data = Inr (data, [])"
| "Pan_move_forEach this index (input # rest) data =
     (case getGestureProgress input (property_key (getId this)) of
        (prog, input1) \<Rightarrow>
          (case lastEmitted prog of
             None \<Rightarrow> Inl TypeError
           | Some le \<Rightarrow>
               (let reachedThreshold =
                      (Pan.threshold this \<le>
                         distanceBetweenTwoPoints (x le) (y le)
                           (ex (current input)) (ey (current input)))
                in if active prog = Some True \<and> reachedThreshold then
                     (case Pan_move_forEach this (index + 1) rest
                             (array_set data index (packData input le)) of
                        Inl err \<Rightarrow> Inl err
                      | Inr (data', rest') \<Rightarrow>
                          Inr (data',
                               setGestureProgress input1 (property_key (getId this))
                                 (prog\<lparr>lastEmitted :=
                                    Some \<lparr>x = ex (current input), y = ey (current input)\<rparr>\<rparr>)
                               # rest'))
                   else
                     (case Pan_move_forEach this (index + 1) rest data of
                        Inl err \<Rightarrow> Inl err
                      | Inr (data', rest') \<Rightarrow> Inr (data', input1 # rest')))))"

definition Pan_move ::
  "Pan \<Rightarrow> ZingEvent Input list
     \<Rightarrow> error + (PanData option list option \<times> ZingEvent Input list)" where
  \<comment> \<open>The result is \<open>None\<close> for \<open>null\<close> and the array \<open>data\<close> of the object
      \<open>{data: [...]}\<close> otherwise; with it come the inputs as the call leaves them.\<close>
  "Pan_move this inputs =
     (if Pan.numInputs this \<noteq> length inputs then Inr (None, inputs)
      else (case Pan_move_forEach this 0 inputs [] of
              Inl err \<Rightarrow> Inl err
            | Inr (data, inputs') \<Rightarrow> Inr (Some data, inputs')))"

section \<open>Rotate (bundle.js, module 12)\<close>

record Rotate = Gesture +
  numInputs :: nat

record RotateData =
  angle :: real
  distanceFromOrigin :: real
  distanceFromLast :: real

fun getRightMostInput_forEach :: "nat \<Rightarrow> ZingEvent Input list \<Rightarrow> nat option \<Rightarrow> nat option" where
  \<comment> \<open>\<open>util.getRightMostInput\<close>: the variable \<open>rightMost\<close> is the position of the input
      it points to; the variable \<open>distance\<close> keeps its first value \<open>Number.MIN_VALUE\<close>.\<close>
  "getRightMostInput_forEach index [] rightMost = rightMost"
| "getRightMostInput_forEach index (input # rest) rightMost =
     getRightMostInput_forEach (index + 1) rest
       (if Number_MIN_VALUE < ex (initial input) then Some index else rightMost)"

definition getRightMostInput :: "ZingEvent Input list \<Rightarrow> nat option" where
  "getRightMostInput inputs = getRightMostInput_forEach 0 inputs None"

definition Rotate_move ::
  "Rotate \<Rightarrow> ZingEvent Input list \<Rightarrow> DOMRect
     \<Rightarrow> error + (RotateData option \<times> ZingEvent Input list)" where
  \<comment> \<open>\<open>inputs\<close> is \<open>state.inputs\<close>, as the arbiter passes it; \<open>element\<close> is the bounding
      rectangle of the binding's element.\<close>
  "Rotate_move this inputs element =
     (let numActiveInputs' = numActiveInputs inputs
      in if Rotate.numInputs this \<noteq> numActiveInputs' then Inr (None, inputs)
         else
           (case (if numActiveInputs' = 1 then
                    (case inputs of
                       [] \<Rightarrow> Inl TypeError
                     | i0 # _ \<Rightarrow>
                         Inr (\<lparr>x = r_left element + r_width element / 2,
                               y = r_top element + r_height element / 2\<rparr>, 0))
                  else
                    (case inputs of
                       i0 # i1 # _ \<Rightarrow>
                         (case getRightMostInput inputs of
                            None \<Rightarrow> Inl TypeError
                          | Some k \<Rightarrow>
                              Inr (getMidpoint (ex (current i0)) (ex (current i1))
                                     (ey (current i0)) (ey (current i1)), k))
                     | _ \<Rightarrow> Inl TypeError)) of
              Inl err \<Rightarrow> Inl err
            | Inr (pivot, k) \<Rightarrow>
                (let input = inputs ! k;
                     currentAngle =
                       getAngle (x pivot) (y pivot) (ex (current input)) (ey (current input))
                 in case getGestureProgress input (property_key (getId this)) of
                      (prog, input1) \<Rightarrow>
                        if \<not> truthy (initialAngle prog) then
                          Inr (Some \<lparr>angle = currentAngle, distanceFromOrigin = 0,
                                     distanceFromLast = 0\<rparr>,
                               inputs[k := setGestureProgress input1 (property_key (getId this))
                                 (prog\<lparr>initialAngle := Some currentAngle,
                                    previousAngle := Some currentAngle,
                                    distance := Some 0,
                                    gesture_progress.change := Some 0\<rparr>)])
                        else
                          (case (previousAngle prog, gesture_progress.distance prog) of
                             (Some previousAngle', Some distance') \<Rightarrow>
                               (let change' = getAngularDistance previousAngle' currentAngle
                                in Inr (Some \<lparr>angle = currentAngle,
                                              distanceFromOrigin = distance' + change',
                                              distanceFromLast = change'\<rparr>,
                                        inputs[k := setGestureProgress input1
                                          (property_key (getId this))
                                          (prog\<lparr>gesture_progress.change := Some change',
                                             distance := Some (distance' + change'),
                                             previousAngle := Some currentAngle\<rparr>)]))
                           | _ \<Rightarrow> Inl NaN))))"

section \<open>Swipe (bundle.js, module 13)\<close>

record Swipe = Gesture +
  numInputs :: nat
  maxRestTime :: real
  escapeVelocity :: real
  timeDistortion :: real
  maxProgressStack :: real

record Swipe_options =
  so_numInputs :: "nat option"
  so_maxRestTime :: "real option"
  so_escapeVelocity :: "real option"
  so_timeDistortion :: "real option"
  so_maxProgressStack :: "real option"

definition or_default :: "real option \<Rightarrow> real \<Rightarrow> real" where
  \<comment> \<open>\<open>v ? v : d\<close> for a number \<open>v\<close> that may be missing.\<close>
  "or_default v d = (case v of Some r \<Rightarrow> if r \<noteq> 0 then r else d | None \<Rightarrow> d)"

definition new_Swipe :: "Swipe_options option \<Rightarrow> Swipe" where
  "new_Swipe options =
     (case options of
        None \<Rightarrow>
          \<lparr>gtype = Some ''swipe'', gid = None, numInputs = 1, maxRestTime = 100,
           escapeVelocity = 2 / 10, timeDistortion = 100, maxProgressStack = 10\<rparr>
      | Some opt \<Rightarrow>
          \<lparr>gtype = Some ''swipe'', gid = None,
           numInputs = (case so_numInputs opt of
                          Some n \<Rightarrow> if n \<noteq> 0 then n else 1 | None \<Rightarrow> 1),
           maxRestTime = or_default (so_maxRestTime opt) 100,
           escapeVelocity = or_default (so_escapeVelocity opt) (2 / 10),
           timeDistortion = or_default (so_timeDistortion opt) 100,
           maxProgressStack = or_default (so_maxProgressStack opt) 10\<rparr>)"

record SwipeData =
  velocity :: real
  distance :: real
  duration :: real
  currentDirection :: real

definition undefined_gt :: "real \<Rightarrow> bool" where
  \<comment> \<open>\<open>undefined > v\<close>: \<open>undefined\<close> converts to NaN, and every comparison with NaN is
      false.\<close>
  "undefined_gt v = False"

text \<open>
  \<open>Swipe.move\<close> returns \<open>null\<close> always; the function gives the inputs as the call leaves
  them. \<open>now\<close> is the value of \<open>new Date().getTime()\<close> during the call. The test before
  \<open>shift\<close> reads \<open>progress.length\<close>: the progress object is a plain object, to which
  only the property \<open>moves\<close> is ever added, so the read yields \<open>undefined\<close>.
\<close>

definition Swipe_move :: "Swipe \<Rightarrow> real \<Rightarrow> ZingEvent Input list \<Rightarrow> ZingEvent Input list" where
  "Swipe_move this now inputs =
     (if Swipe.numInputs this = length inputs then
        map (\<lambda>input.
               case getGestureProgress input (property_key (getId this)) of
                 (prog, input1) \<Rightarrow>
                   (let moves0 = (case moves prog of None \<Rightarrow> [] | Some ms \<Rightarrow> ms);
                        moves1 = moves0 @ [\<lparr>time = now, sx = ex (current input),
                                            sy = ey (current input)\<rparr>];
                        moves2 = (if undefined_gt (maxProgressStack this) then tl moves1
                                  else moves1)
                    in setGestureProgress input1 (property_key (getId this))
                         (prog\<lparr>moves := Some moves2\<rparr>)))
            inputs
      else inputs)"

text \<open>
  The first loop of \<open>Swipe.end\<close>, over the inputs from position \<open>index\<close> on. \<open>data\<close> is
  the array \<open>output.data\<close> so far and \<open>velocity'\<close> the function-wide variable
  \<open>velocity\<close>, \<open>None\<close> while it has not been assigned. The result is \<open>None\<close> when the
  loop leaves the function (with \<open>return\<close> or \<open>return null\<close>, which the caller does not
  tell apart), and the array and the variable otherwise; with it come the inputs as the
  loop leaves them. In the minified bundle \<open>currentMove\<close> is \<open>i\<close>, \<open>lastMove\<close> is
  \<open>u\<close> and \<open>velocity\<close> is \<open>a\<close>.
\<close>

fun Swipe_end_loop ::
  "Swipe \<Rightarrow> real \<Rightarrow> nat \<Rightarrow> ZingEvent Input list \<Rightarrow> SwipeData option list \<Rightarrow> real option
     \<Rightarrow> (SwipeData option list \<times> real option) option \<times> ZingEvent Input list" where
  "Swipe_end_loop this now index [] data velocity' = (Some (data, velocity'), [])"
| "Swipe_end_loop this now index (input # rest) data velocity' =
     (if ztype (current input) \<noteq> Some End then (None, input # rest)
      else
        (case getGestureProgress input (property_key (getId this)) of
           (prog, input1) \<Rightarrow>
             (case moves prog of
                None \<Rightarrow>
                  (case Swipe_end_loop this now (index + 1) rest data velocity' of
                     (r, rest') \<Rightarrow> (r, input1 # rest'))
              | Some ms \<Rightarrow>
                  if \<not> 2 < length ms then
                    (case Swipe_end_loop this now (index + 1) rest data velocity' of
                       (r, rest') \<Rightarrow> (r, input1 # rest'))
                  else
                    (let currentMove = last ms;
                         ms1 = butlast ms
                     in if maxRestTime this < now - time currentMove then
                          (None,
                           setGestureProgress input1 (property_key (getId this))
                             (prog\<lparr>moves := Some ms1\<rparr>) # rest)
                        else
                          (let (lastMove, ms2) =
                                 (case find (\<lambda>m. time m \<noteq> time currentMove) (rev ms1) of
                                    Some m \<Rightarrow> (m, ms1)
                                  | None \<Rightarrow>
                                      ((last ms1)\<lparr>time := time (last ms1) + timeDistortion this\<rparr>,
                                       butlast ms1));
                               v = getVelocity (sx lastMove) (sy lastMove) (time lastMove)
                                     (sx currentMove) (sy currentMove) (time currentMove);
                               d = \<lparr>velocity = v,
                                    distance =
                                      distanceBetweenTwoPoints (sx lastMove) (sx currentMove)
                                        (sy lastMove) (sy currentMove),
                                    duration = time currentMove - time lastMove,
                                    currentDirection =
                                      getAngle (sx lastMove) (sy lastMove)
                                        (sx currentMove) (sy currentMove)\<rparr>
                           in case Swipe_end_loop this now (index + 1) rest
                                     (array_set data index d) (Some v) of
                                (r, rest') \<Rightarrow>
                                  (r,
                                   setGestureProgress input1 (property_key (getId this))
                                     (prog\<lparr>moves := Some ms2\<rparr>) # rest'))))))"

definition Swipe_end ::
  "Swipe \<Rightarrow> real \<Rightarrow> ZingEvent Input list
     \<Rightarrow> SwipeData option list option \<times> ZingEvent Input list" where
  \<comment> \<open>The result is \<open>None\<close> for \<open>null\<close> and \<open>undefined\<close>, and the array \<open>data\<close> of
      the object \<open>{data: [...]}\<close> otherwise. The second loop compares the variable
      \<open>velocity\<close> once for every position of \<open>output.data\<close>.\<close>
  "Swipe_end this now inputs =
     (if Swipe.numInputs this = length inputs then
        (case Swipe_end_loop this now 0 inputs [] None of
           (None, inputs') \<Rightarrow> (None, inputs')
         | (Some (data, velocity'), inputs') \<Rightarrow>
             if list_ex (\<lambda>i. case velocity' of
                               None \<Rightarrow> False
                             | Some v \<Rightarrow> v < escapeVelocity this) [0..<length data]
             then (None, inputs')
             else if 0 < length data then (Some data, inputs')
             else (None, inputs'))
      else (None, inputs))"

section \<open>Tap (bundle.js, module 14)\<close>

record Tap = Gesture +
  minDelay :: real
  maxDelay :: real
  numInputs :: nat
  tolerance :: real

record Tap_options =
  to_minDelay :: "real option"
  to_maxDelay :: "real option"
  to_numInputs :: "nat option"
  to_tolerance :: "real option"

definition new_Tap :: "Tap_options option \<Rightarrow> Tap" where
  "new_Tap options =
     (case options of
        None \<Rightarrow>
          \<lparr>gtype = Some ''tap'', gid = None, minDelay = 0, maxDelay = 300, numInputs = 1,
           tolerance = 10\<rparr>
      | Some opt \<Rightarrow>
          \<lparr>gtype = Some ''tap'', gid = None,
           minDelay = or_default (to_minDelay opt) 0,
           maxDelay = or_default (to_maxDelay opt) 300,
           numInputs = (case to_numInputs opt of
                          Some n \<Rightarrow> if n \<noteq> 0 then n else 1 | None \<Rightarrow> 1),
           tolerance = or_default (to_tolerance opt) 10\<rparr>)"

text \<open>
  Tap keeps its progress under \<open>this.type\<close>. \<open>Tap.start\<close> and \<open>Tap.move\<close> return
  \<open>null\<close> always; the functions give the inputs as the call leaves them.
\<close>

definition Tap_start :: "Tap \<Rightarrow> real \<Rightarrow> ZingEvent Input list \<Rightarrow> ZingEvent Input list" where
  "Tap_start this now inputs =
     (if length inputs = Tap.numInputs this then
        map (\<lambda>input.
               case getGestureProgress input (property_key (gtype this)) of
                 (prog, input1) \<Rightarrow>
                   setGestureProgress input1 (property_key (gtype this))
                     (prog\<lparr>start := Some now\<rparr>))
            inputs
      else inputs)"

definition Tap_move :: "Tap \<Rightarrow> ZingEvent Input list \<Rightarrow> ZingEvent Input list" where
  \<comment> \<open>The loop stops at the first input in Move phase that is not within the tolerance
      of its previous event, and then resets the progress of every input.\<close>
  "Tap_move this inputs =
     (if list_ex (\<lambda>input. ztype (current input) = Some Move \<and>
                    \<not> isWithin (ex (current input)) (ey (current input))
                         (ex (previous input)) (ey (previous input)) (tolerance this))
           inputs
      then map (\<lambda>input. resetProgress input (property_key (gtype this))) inputs
      else inputs)"

text \<open>
  The loop of \<open>Tap.end\<close>: \<open>startTime\<close> is the smallest start stamp so far. The result
  is \<open>None\<close> when the loop leaves the function with \<open>return null\<close>.
\<close>

fun Tap_end_loop ::
  "Tap \<Rightarrow> ZingEvent Input list \<Rightarrow> real \<Rightarrow> real option \<times> ZingEvent Input list" where
  "Tap_end_loop this [] startTime = (Some startTime, [])"
| "Tap_end_loop this (input # rest) startTime =
     (if ztype (current input) \<noteq> Some End then (None, input # rest)
      else
        (case getGestureProgress input (property_key (gtype this)) of
           (prog, input1) \<Rightarrow>
             (case start prog of
                None \<Rightarrow> (None, input1 # rest)
              | Some s \<Rightarrow>
                  if s = 0 then (None, input1 # rest)
                  else
                    (case Tap_end_loop this rest (if s < startTime then s else startTime) of
                       (r, rest') \<Rightarrow> (r, input1 # rest')))))"

definition Tap_end ::
  "Tap \<Rightarrow> real \<Rightarrow> ZingEvent Input list \<Rightarrow> real option \<times> ZingEvent Input list" where
  \<comment> \<open>The result is \<open>None\<close> for \<open>null\<close> and the interval of the object
      \<open>{interval: ...}\<close> otherwise.\<close>
  "Tap_end this now inputs =
     (if length inputs \<noteq> Tap.numInputs this then (None, inputs)
      else
        (case Tap_end_loop this inputs Number_MAX_VALUE of
           (None, inputs') \<Rightarrow> (None, inputs')
         | (Some startTime, inputs') \<Rightarrow>
             (let interval = now - startTime
              in if minDelay this \<le> interval \<and> interval \<le> maxDelay this
                 then (Some interval, inputs')
                 else (None,
                       map (\<lambda>input. resetProgress input (property_key (gtype this)))
                         inputs'))))"

section \<open>Interpreter (bundle.js, module 6)\<close>

text \<open>
  A binding, without its handler. The elements of the page are values of any type
  \<open>'el\<close>, compared as the objects are.
\<close>

record 'el Binding =
  element :: 'el
  gesture :: Gesture
  capture :: bool
  bindOnce :: bool

text \<open>
  What the arbiter yields for a binding whose gesture returned a result: the object
  \<open>{binding, data, events}\<close>, the field \<open>cdata\<close> being its property \<open>data\<close>.
\<close>

record ('el, 'd) candidate =
  binding :: "'el Binding"
  cdata :: 'd
  events :: "ZingEvent list"

text \<open>
  The arbiter (bundle.js, module 8): \<open>bindings.reduce\<close>, where \<open>run b inputs\<close> stands
  for the call \<open>b.gesture[type](state.inputs, state, b.element)\<close> of the gesture's
  \<open>start\<close>, \<open>move\<close> or \<open>end\<close>, which returns a result or nothing and may change
  the progress of the inputs. The events of a candidate are the current events of the
  inputs, taken before the first call.
\<close>

fun arbiter_reduce ::
  "('el Binding \<Rightarrow> 's \<Rightarrow> 'd option \<times> 's) \<Rightarrow> 'el Binding list \<Rightarrow> ZingEvent list \<Rightarrow> 's
     \<Rightarrow> ('el, 'd) candidate list \<Rightarrow> ('el, 'd) candidate list \<times> 's" where
  "arbiter_reduce run [] evs st acc = (acc, st)"
| "arbiter_reduce run (b # bs) evs st acc =
     (case run b st of
        (Some d, st') \<Rightarrow>
          arbiter_reduce run bs evs st' (acc @ [\<lparr>binding = b, cdata = d, events = evs\<rparr>])
      | (None, st') \<Rightarrow> arbiter_reduce run bs evs st' acc)"

definition arbiter ::
  "('el Binding \<Rightarrow> ZingEvent Input list \<Rightarrow> 'd option \<times> ZingEvent Input list)
     \<Rightarrow> 'el Binding list \<Rightarrow> ZingEvent Input list
     \<Rightarrow> ('el, 'd) candidate list \<times> ZingEvent Input list" where
  "arbiter run bindings inputs = arbiter_reduce run bindings (map current inputs) inputs []"

text \<open>
  \<open>util.getPathIndex\<close>: \<open>path.forEach\<close> with the position \<open>i\<close> of the object at hand
  and the variable \<open>index\<close>, which starts as the length of the path.
\<close>

fun getPathIndex_forEach :: "'el list \<Rightarrow> 'el \<Rightarrow> nat \<Rightarrow> nat \<Rightarrow> nat" where
  "getPathIndex_forEach [] el i index = index"
| "getPathIndex_forEach (obj # rest) el i index =
     getPathIndex_forEach rest el (i + 1) (if obj = el then i else index)"

definition getPathIndex :: "'el list \<Rightarrow> 'el \<Rightarrow> nat" where
  "getPathIndex path el = getPathIndex_forEach path el 0 (length path)"

text \<open>
  A plain object whose properties are named by strings is the list of its names and
  values, in the order in which the names were first assigned (the order of
  \<open>Object.keys\<close> for names that are not array indices, as the identifiers of
  gestures are, which are not names that a plain object inherits either).
  \<open>object_assign u k v\<close> is \<open>u[k] = v\<close>.
\<close>

fun object_assign :: "(string \<times> 'a) list \<Rightarrow> string \<Rightarrow> 'a \<Rightarrow> (string \<times> 'a) list" where
  "object_assign [] k v = [(k, v)]"
| "object_assign ((k', v') # rest) k v =
     (if k' = k then (k, v) # rest else (k', v') # object_assign rest k v)"

text \<open>
  The interpreter, after the arbiter: the callback of \<open>gestures.forEach\<close>, which fills
  the object \<open>toBeDispatched\<close>. \<open>path\<close> is the propagation path of the event, from
  its target outwards. In the minified bundle the object is \<open>u\<close>, the candidates are
  \<open>a\<close> and the path is \<open>c\<close>, in the function \<open>i\<close> of module 6.
\<close>

definition toBeDispatched_step ::
  "'el list \<Rightarrow> (string \<times> ('el, 'd) candidate) list \<Rightarrow> ('el, 'd) candidate
     \<Rightarrow> (string \<times> ('el, 'd) candidate) list" where
  "toBeDispatched_step path u g =
     (let id = property_key (getId (gesture (binding g)))
      in case map_of u id of
           Some held \<Rightarrow>
             if getPathIndex path (element (binding g)) < getPathIndex path (element (binding held))
             then object_assign u id g else u
         | None \<Rightarrow> object_assign u id g)"

definition toBeDispatched ::
  "'el list \<Rightarrow> ('el, 'd) candidate list \<Rightarrow> (string \<times> ('el, 'd) candidate) list" where
  "toBeDispatched path gestures = foldl (toBeDispatched_step path) [] gestures"

section \<open>Dispatcher (bundle.js, module 7)\<close>

text \<open>
  The custom event that the dispatcher creates and dispatches: the element it is
  dispatched on, its type, which is the identifier of the gesture, and its detail, the
  data of the gesture, to which the dispatcher adds the events.
\<close>

record ('el, 'd) CustomEvent =
  target :: 'el
  ce_type :: string
  detail :: 'd
  detail_events :: "ZingEvent list"

definition new_CustomEvent :: "'el Binding \<Rightarrow> 'd \<Rightarrow> ZingEvent list \<Rightarrow> ('el, 'd) CustomEvent" where
  "new_CustomEvent b data evs =
     \<lparr>target = element b, ce_type = property_key (getId (gesture b)), detail = data,
      detail_events = evs\<rparr>"

text \<open>
  The dispatcher dispatches the event and then, for a binding made with \<open>bindOnce\<close>,
  calls \<open>ZingTouch.unbind\<close>. The object \<open>ZingTouch\<close> (module 1) has the properties
  \<open>_regions\<close>, \<open>Gesture\<close>, \<open>Pan\<close>, \<open>Pinch\<close>, \<open>Rotate\<close>, \<open>Swipe\<close>, \<open>Tap\<close> and
  \<open>Region\<close> and no property \<open>unbind\<close>, so the call throws a TypeError. The result is
  the event dispatched and the error thrown after it, if any. In the minified bundle
  these are the functions \<open>n\<close> and \<open>r\<close> of module 7; what the handlers of the event
  do is not part of the model.
\<close>

definition dispatcher ::
  "'el Binding \<Rightarrow> 'd \<Rightarrow> ZingEvent list \<Rightarrow> ('el, 'd) CustomEvent \<times> error option" where
  "dispatcher b data evs =
     (new_CustomEvent b data evs, if bindOnce b then Some TypeError else None)"

text \<open>
  The end of the interpreter: \<open>Object.keys(toBeDispatched).forEach\<close>, which calls the
  dispatcher for the candidates of the object in the order in which their names were
  added and which an error thrown by the dispatcher ends. (Names that are array indices
  would come first; the ids that a region assigns, such as \<open>0-0\<close>, and the types of
  the gestures of the library are not.) The result is the list of the events dispatched
  and the error, if any.
\<close>

fun dispatch_forEach ::
  "('el, 'd) candidate list \<Rightarrow> ('el, 'd) CustomEvent list \<times> error option" where
  "dispatch_forEach [] = ([], None)"
| "dispatch_forEach (g # rest) =
     (case dispatcher (binding g) (cdata g) (events g) of
        (ev, Some err) \<Rightarrow> ([ev], Some err)
      | (ev, None) \<Rightarrow> (case dispatch_forEach rest of (evs, err) \<Rightarrow> (ev # evs, err)))"

definition interpreter_dispatch ::
  "'el list \<Rightarrow> ('el, 'd) candidate list \<Rightarrow> ('el, 'd) CustomEvent list \<times> error option" where
  "interpreter_dispatch path gestures =
     dispatch_forEach (map snd (toBeDispatched path gestures))"

section \<open>Events and inputs of the examples\<close>

definition touchEvent :: "string \<Rightarrow> nat \<Rightarrow> real \<Rightarrow> real \<Rightarrow> Event" where
  \<comment> \<open>A touch event of the given type, with one changed touch.\<close>
  "touchEvent t ident px py =
     \<lparr>ev_type = t, clientX = 0, clientY = 0,
      touches = Some [\<lparr>t_identifier = ident, t_clientX = px, t_clientY = py\<rparr>],
      changedTouches = Some [\<lparr>t_identifier = ident, t_clientX = px, t_clientY = py\<rparr>]\<rparr>"

definition zing :: "Event \<Rightarrow> phase \<Rightarrow> real \<Rightarrow> real \<Rightarrow> ZingEvent" where
  "zing ev ph px py = \<lparr>originalEvent = ev, ztype = Some ph, ex = px, ey = py\<rparr>"

definition region :: DOMRect where
  "region = \<lparr>r_left = 0, r_top = 0, r_width = 100, r_height = 100\<rparr>"

definition finger0_down :: "ZingEvent Input" where
  \<comment> \<open>Touch 0 went down at \<open>(1, 1)\<close>.\<close>
  "finger0_down =
     (let z = zing (touchEvent ''touchstart'' 0 1 1) Start 1 1
      in \<lparr>initial = z, current = z, previous = z, input_id = 0, progress = Map.empty\<rparr>)"

definition finger1_lifted :: "ZingEvent Input" where
  \<comment> \<open>Touch 1 went down at \<open>(2, 2)\<close> and was lifted there.\<close>
  "finger1_lifted =
     (let z = zing (touchEvent ''touchstart'' 1 2 2) Start 2 2
      in \<lparr>initial = z, current = zing (touchEvent ''touchend'' 1 2 2) End 2 2, previous = z,
          input_id = 1, progress = Map.empty\<rparr>)"

definition touchInput ::
  "nat \<Rightarrow> real \<times> real \<Rightarrow> real \<times> real \<Rightarrow> string \<Rightarrow> phase \<Rightarrow> real \<times> real
     \<Rightarrow> (string \<rightharpoonup> gesture_progress) \<Rightarrow> ZingEvent Input" where
  \<comment> \<open>The input of a touch: where it went down, where its previous event was, the type,
      phase and place of its current event, and its progress.\<close>
  "touchInput ident i p t ph c pr =
     \<lparr>initial = zing (touchEvent ''touchstart'' ident (fst i) (snd i)) Start (fst i) (snd i),
      current = zing (touchEvent t ident (fst c) (snd c)) ph (fst c) (snd c),
      previous = zing (touchEvent ''touchmove'' ident (fst p) (snd p)) Move (fst p) (snd p),
      input_id = ident, progress = pr\<rparr>"

definition pan2 :: Pan where
  \<comment> \<open>\<open>new Pan({threshold: 2})\<close>, registered as gesture \<open>0-0\<close>.\<close>
  "pan2 = (new_Pan (Some \<lparr>po_numInputs = None, po_threshold = Some 2\<rparr>))\<lparr>gid := Some ''0-0''\<rparr>"

definition pan_progress :: "real \<times> real \<Rightarrow> gesture_progress" where
  "pan_progress le =
     empty_progress\<lparr>active := Some True, lastEmitted := Some \<lparr>x = fst le, y = snd le\<rparr>\<rparr>"

definition rotate1 :: Rotate where
  \<comment> \<open>\<open>new Rotate({numInputs: 1})\<close>, registered as gesture \<open>0-1\<close>.\<close>
  "rotate1 = \<lparr>gtype = Some ''rotate'', gid = Some ''0-1'', Rotate.numInputs = 1\<rparr>"

definition box :: DOMRect where
  \<comment> \<open>An element whose centre is \<open>(0, 0)\<close>.\<close>
  "box = \<lparr>r_left = - 10, r_top = - 10, r_width = 20, r_height = 20\<rparr>"

definition rotate_progress :: "real \<Rightarrow> real \<Rightarrow> real \<Rightarrow> real \<Rightarrow> gesture_progress" where
  "rotate_progress i p d c =
     empty_progress\<lparr>initialAngle := Some i, previousAngle := Some p,
       gesture_progress.distance := Some d, gesture_progress.change := Some c\<rparr>"

definition swipe1 :: Swipe where
  \<comment> \<open>\<open>new Swipe()\<close>, registered as gesture \<open>0-3\<close>.\<close>
  "swipe1 = (new_Swipe None)\<lparr>gid := Some ''0-3''\<rparr>"

definition swipe2 :: Swipe where
  \<comment> \<open>\<open>new Swipe({numInputs: 2})\<close>, registered as gesture \<open>0-3\<close>.\<close>
  "swipe2 =
     (new_Swipe (Some \<lparr>so_numInputs = Some 2, so_maxRestTime = None, so_escapeVelocity = None,
                         so_timeDistortion = None, so_maxProgressStack = None\<rparr>))
       \<lparr>gid := Some ''0-3''\<rparr>"

definition swipe_progress :: "(real \<times> real \<times> real) list \<Rightarrow> gesture_progress" where
  \<comment> \<open>The recorded moves, each as time, x and y.\<close>
  "swipe_progress ms =
     empty_progress\<lparr>moves := Some (map (\<lambda>(t, px, py). \<lparr>time = t, sx = px, sy = py\<rparr>) ms)\<rparr>"

definition tap2 :: Tap where
  \<comment> \<open>\<open>new Tap({numInputs: 2})\<close>.\<close>
  "tap2 = new_Tap (Some \<lparr>to_minDelay = None, to_maxDelay = None, to_numInputs = Some 2,
                          to_tolerance = None\<rparr>)"

definition tap_progress :: "real \<Rightarrow> gesture_progress" where
  "tap_progress s = empty_progress\<lparr>start := Some s\<rparr>"

definition bound :: "string \<Rightarrow> Gesture \<Rightarrow> bool \<Rightarrow> nat \<Rightarrow> (string, nat) candidate" where
  \<comment> \<open>The candidate of a binding of the given gesture to the given element, made with
      \<open>bindOnce\<close> or not; the number stands for the result of the gesture.\<close>
  "bound el g once d =
     \<lparr>binding = \<lparr>element = el, gesture = g, capture = False, bindOnce = once\<rparr>,
      cdata = d, events = []\<rparr>"

definition registered_pan :: Gesture where
  \<comment> \<open>The pan that the state of region 0 registers under the name \<open>pan\<close>: its first
      gesture, with the id \<open>0-0\<close>.\<close>
  "registered_pan = \<lparr>gtype = Some ''pan'', gid = Some ''0-0''\<rparr>"

definition registered_tap :: Gesture where
  \<comment> \<open>The tap that the state of region 0 registers under the name \<open>tap\<close>: its fifth
      gesture, with the id \<open>0-4\<close>.\<close>
  "registered_tap = \<lparr>gtype = Some ''tap'', gid = Some ''0-4''\<rparr>"

definition own_pan :: Gesture where
  \<comment> \<open>A \<open>new Pan()\<close> that is bound as an object: the constructor of \<open>Gesture\<close> sets
      its id to \<open>null\<close>, and \<open>addBinding\<close> assigns an id only to a gesture whose id is the
      empty string.\<close>
  "own_pan = \<lparr>gtype = Some ''pan'', gid = None\<rparr>"

section \<open>Notions of the statements and of the proofs\<close>

text \<open>
  For a tap: the start stamp that an input holds in its tap progress, the condition
  under which the loop of \<open>Tap.end\<close> runs to its end, the smallest stamp, and the
  condition under which \<open>Tap.move\<close> resets.
\<close>

abbreviation tap_stamp :: "Tap \<Rightarrow> ZingEvent Input \<Rightarrow> real option" where
  "tap_stamp this input \<equiv> start (fst (getGestureProgress input (property_key (gtype this))))"

abbreviation tap_ready :: "Tap \<Rightarrow> ZingEvent Input list \<Rightarrow> bool" where
  "tap_ready this inputs \<equiv>
     (\<forall>input\<in>set inputs. ztype (current input) = Some End \<and> truthy (tap_stamp this input))"

abbreviation tap_earliest :: "Tap \<Rightarrow> ZingEvent Input list \<Rightarrow> real" where
  "tap_earliest this inputs \<equiv>
     Min (set (Number_MAX_VALUE # List.map_filter (tap_stamp this) inputs))"

abbreviation tap_exceeds :: "Tap \<Rightarrow> ZingEvent Input \<Rightarrow> bool" where
  "tap_exceeds this input \<equiv>
     (ztype (current input) = Some Move \<and>
      (tolerance this < \<bar>ex (current input) - ex (previous input)\<bar> \<or>
       tolerance this < \<bar>ey (current input) - ey (previous input)\<bar>))"

text \<open>
  For the interpreter: the name under which the loop files a candidate, the identifier of
  a candidate's gesture written out (its id, or else its type, or else \<open>null\<close>), and
  the position of its element in the propagation path; \<open>best\<close> and \<open>inv\<close> are the
  invariant of the loop over the candidates.
\<close>

abbreviation kind :: "('el, 'd) candidate \<Rightarrow> string" where
  "kind g \<equiv> property_key (getId (gesture (binding g)))"

abbreviation gesture_key :: "('el, 'd) candidate \<Rightarrow> string" where
  "gesture_key g \<equiv>
     (case gid (gesture (binding g)) of
        Some i \<Rightarrow> i
      | None \<Rightarrow> (case gtype (gesture (binding g)) of Some t \<Rightarrow> t | None \<Rightarrow> ''null''))"

abbreviation depth :: "'el list \<Rightarrow> ('el, 'd) candidate \<Rightarrow> nat" where
  "depth path g \<equiv> getPathIndex path (element (binding g))"

definition best :: "'el list \<Rightarrow> ('el, 'd) candidate list \<Rightarrow> ('el, 'd) candidate \<Rightarrow> bool" where
  "best path xs w \<longleftrightarrow>
     (\<exists>i<length xs. xs ! i = w \<and>
        (\<forall>j<length xs. kind (xs ! j) = kind w \<longrightarrow>
           depth path w \<le> depth path (xs ! j) \<and> (depth path (xs ! j) = depth path w \<longrightarrow> i \<le> j)))"

definition inv ::
  "'el list \<Rightarrow> ('el, 'd) candidate list \<Rightarrow> (string \<times> ('el, 'd) candidate) list \<Rightarrow> bool" where
  "inv path xs u \<longleftrightarrow>
     distinct (map fst u) \<and> fst ` set u = kind ` set xs \<and>
     (\<forall>p\<in>set u. fst p = kind (snd p) \<and> best path xs (snd p))"

section \<open>Point2D: addition and subtraction\<close>

lemma subtract_add: "subtract (add p q) q = p"
  by (simp add: add_def subtract_def)

text \<open>
  Claim C10. For all points \<open>p\<close> and \<open>q\<close> held in the store, \<open>p.add(q).subtract(q)\<close>
  is a point equal to \<open>p\<close> (componentwise, over exact arithmetic), and neither call
  changes an object that was in the store before: both results are fresh objects, and
  \<open>p\<close> and \<open>q\<close> are afterwards what they were.
\<close>

theorem add_subtract_inverse:
  assumes "p < length st" and "q < length st"
  shows "case add_method st p q of (st1, r) \<Rightarrow>
           (case subtract_method st1 r q of (st2, s) \<Rightarrow>
              st2 ! s = st ! p \<and> length st \<le> r \<and> length st \<le> s \<and>
              (\<forall>a < length st. st1 ! a = st ! a \<and> st2 ! a = st ! a))"
  using assms
  by (simp add: add_method_def subtract_method_def new_Point2D_def nth_append subtract_add)

theorem add_subtract_inverse_witness:
  "case add_method [\<lparr>x = 1, y = 2\<rparr>, \<lparr>x = 10, y = - 4\<rparr>] 0 1 of (st1, r) \<Rightarrow>
     (case subtract_method st1 r 1 of (st2, s) \<Rightarrow>
        st2 ! s = \<lparr>x = 1, y = 2\<rparr> \<and> r = 2 \<and> s = 3 \<and>
        st1 ! 2 = \<lparr>x = 11, y = - 2\<rparr> \<and>
        st2 ! 0 = \<lparr>x = 1, y = 2\<rparr> \<and> st2 ! 1 = \<lparr>x = 10, y = - 4\<rparr>)"
  using add_subtract_inverse [of 0 "[\<lparr>x = 1, y = 2\<rparr>, \<lparr>x = 10, y = - 4\<rparr>]" 1]
  by (simp add: add_method_def subtract_method_def new_Point2D_def add_def subtract_def)

section \<open>Angles\<close>

lemma Math_atan2_bounds: "- pi < Math_atan2 dy dx \<and> Math_atan2 dy dx \<le> pi"
proof -
  have l: "- (pi / 2) < arctan (dy / dx)" and u: "arctan (dy / dx) < pi / 2"
    by (rule arctan_lbound, rule arctan_ubound)
  have pos: "0 < pi" by (rule pi_gt_zero)
  show ?thesis
  proof (cases "0 < dx")
    case True
    then have "Math_atan2 dy dx = arctan (dy / dx)" by (simp add: Math_atan2_def)
    with l u pos show ?thesis by linarith
  next
    case False
    note nx = this
    show ?thesis
    proof (cases "dx < 0")
      case True
      show ?thesis
      proof (cases "0 \<le> dy")
        case True
        with \<open>dx < 0\<close> have "dy / dx \<le> 0" by (simp add: divide_nonneg_neg)
        then have "arctan (dy / dx) \<le> 0" by (simp add: arctan_le_zero_iff)
        moreover have "Math_atan2 dy dx = arctan (dy / dx) + pi"
          using True \<open>dx < 0\<close> by (simp add: Math_atan2_def)
        ultimately show ?thesis using l pos by linarith
      next
        case False
        with \<open>dx < 0\<close> have "0 < dy / dx" by (simp add: divide_neg_neg)
        then have "0 < arctan (dy / dx)" by (simp add: zero_less_arctan_iff)
        moreover have "Math_atan2 dy dx = arctan (dy / dx) - pi"
          using False \<open>dx < 0\<close> by (simp add: Math_atan2_def)
        ultimately show ?thesis using u pos by linarith
      qed
    next
      case False
      with nx have "Math_atan2 dy dx = pi / 2 \<or> Math_atan2 dy dx = - (pi / 2) \<or> Math_atan2 dy dx = 0"
        by (simp add: Math_atan2_def)
      with pos show ?thesis by linarith
    qed
  qed
qed

lemma Math_atan2_right: "0 < dx \<Longrightarrow> Math_atan2 0 dx = 0"
  by (simp add: Math_atan2_def)
lemma Math_atan2_left: "dx < 0 \<Longrightarrow> Math_atan2 0 dx = pi"
  by (simp add: Math_atan2_def)
lemma Math_atan2_down: "0 < dy \<Longrightarrow> Math_atan2 dy 0 = pi / 2"
  by (simp add: Math_atan2_def)
lemma Math_atan2_up: "dy < 0 \<Longrightarrow> Math_atan2 dy 0 = - (pi / 2)"
  by (simp add: Math_atan2_def)

lemma deg_bounds:
  "- 180 < Math_atan2 dy dx * (180 / pi) \<and> Math_atan2 dy dx * (180 / pi) \<le> 180"
proof -
  have pos: "0 < pi" by (rule pi_gt_zero)
  have b: "- pi < Math_atan2 dy dx" "Math_atan2 dy dx \<le> pi"
    using Math_atan2_bounds by blast+
  have "Math_atan2 dy dx * (180 / pi) \<le> pi * (180 / pi)"
    using b(2) pos by (intro mult_right_mono) simp_all
  moreover have "(- pi) * (180 / pi) < Math_atan2 dy dx * (180 / pi)"
    using b(1) pos by (intro mult_strict_right_mono) simp_all
  ultimately show ?thesis using pos by simp
qed

lemma getAngle_range: "0 < getAngle ox oy px py \<and> getAngle ox oy px py \<le> 360"
  using deg_bounds [of "py - oy" "px - ox"]
  by (simp add: getAngle_def Let_def)

lemma getAngle_cases:
  "getAngle ox oy px py =
     (if Math_atan2 (py - oy) (px - ox) * (180 / pi) < 0
      then - (Math_atan2 (py - oy) (px - ox) * (180 / pi))
      else 360 - Math_atan2 (py - oy) (px - ox) * (180 / pi))"
  by (simp add: getAngle_def Let_def)

lemma angleTo_upward: "angleTo \<lparr>x = 0, y = 0\<rparr> \<lparr>x = 0, y = - 5\<rparr> = - (pi / 2)"
  by (simp add: angleTo_def Math_atan2_def)

lemma angleTo_range: "- pi < angleTo p q \<and> angleTo p q \<le> pi"
  unfolding angleTo_def by (rule Math_atan2_bounds)

text \<open>
  Claim C5, as the code contradicts it. For the purely rightward displacement from
  \<open>(0, 0)\<close> to \<open>(5, 0)\<close>, \<open>util.getAngle\<close> returns 360, which is neither 0 nor
  below 360 nor \<open>180 - atan2(dy, dx) * 180 / pi = 180\<close>.
\<close>

theorem angle_rightward_counterexample:
  "getAngle 0 0 5 0 = 360 \<and>
   \<not> (0 \<le> getAngle 0 0 5 0 \<and> getAngle 0 0 5 0 < 360) \<and>
   getAngle 0 0 5 0 \<noteq> 0 \<and>
   getAngle 0 0 5 0 \<noteq> 180 - Math_atan2 (0 - 0) (5 - 0) * 180 / pi"
  by (simp add: getAngle_def Math_atan2_def)

text \<open>
  Claim C5, amended. For every pair of points, \<open>util.getAngle\<close> returns degrees in
  \<open>(0, 360]\<close>: with \<open>a = atan2(dy, dx) * 180 / pi\<close> it is \<open>- a\<close> when \<open>a\<close> is negative and
  \<open>360 - a\<close> otherwise, that is the angle measured from the 3-o'clock axis towards the
  top of the screen (\<open>y\<close> grows downwards): a purely rightward displacement gives 360,
  an upward one 90, a leftward one 180 and a downward one 270. For a purely rightward
  displacement \<open>Point2D.angleTo\<close> returns 0.
\<close>

theorem getAngle_angleTo_range:
  "0 < getAngle ox oy px py \<and> getAngle ox oy px py \<le> 360 \<and>
   getAngle ox oy px py =
     (if Math_atan2 (py - oy) (px - ox) * (180 / pi) < 0
      then - (Math_atan2 (py - oy) (px - ox) * (180 / pi))
      else 360 - Math_atan2 (py - oy) (px - ox) * (180 / pi)) \<and>
   (py = oy \<and> ox < px \<longrightarrow> getAngle ox oy px py = 360) \<and>
   (px = ox \<and> py < oy \<longrightarrow> getAngle ox oy px py = 90) \<and>
   (py = oy \<and> px < ox \<longrightarrow> getAngle ox oy px py = 180) \<and>
   (px = ox \<and> oy < py \<longrightarrow> getAngle ox oy px py = 270) \<and>
   (y q = y p \<and> x p < x q \<longrightarrow> angleTo p q = 0)"
proof -
  have "py = oy \<and> ox < px \<longrightarrow> getAngle ox oy px py = 360"
    by (simp add: getAngle_def Math_atan2_right)
  moreover have "px = ox \<and> py < oy \<longrightarrow> getAngle ox oy px py = 90"
    by (simp add: getAngle_def Math_atan2_up)
  moreover have "py = oy \<and> px < ox \<longrightarrow> getAngle ox oy px py = 180"
    by (simp add: getAngle_def Math_atan2_left)
  moreover have "px = ox \<and> oy < py \<longrightarrow> getAngle ox oy px py = 270"
    by (simp add: getAngle_def Math_atan2_down)
  moreover have "y q = y p \<and> x p < x q \<longrightarrow> angleTo p q = 0"
    by (simp add: angleTo_def Math_atan2_right)
  ultimately show ?thesis
    using getAngle_range [of ox oy px py] getAngle_cases [of ox oy px py] by blast
qed

theorem getAngle_angleTo_range_witness:
  "getAngle 0 0 5 0 = 360 \<and> getAngle 0 0 0 (- 5) = 90 \<and> getAngle 0 0 (- 5) 0 = 180 \<and>
   getAngle 0 0 0 5 = 270 \<and> angleTo \<lparr>x = 0, y = 0\<rparr> \<lparr>x = 5, y = 0\<rparr> = 0"
proof -
  note c2 = conjunct2
  have "getAngle 0 0 5 0 = 360"
    using getAngle_angleTo_range [of 0 0 5 0, THEN c2, THEN c2, THEN c2, THEN conjunct1]
    by simp
  moreover have "getAngle 0 0 0 (- 5) = 90"
    using getAngle_angleTo_range [of 0 0 0 "- 5", THEN c2, THEN c2, THEN c2, THEN c2,
        THEN conjunct1]
    by simp
  moreover have "getAngle 0 0 (- 5) 0 = 180"
    using getAngle_angleTo_range [of 0 0 "- 5" 0, THEN c2, THEN c2, THEN c2, THEN c2, THEN c2,
        THEN conjunct1]
    by simp
  moreover have "getAngle 0 0 0 5 = 270"
    using getAngle_angleTo_range [of 0 0 0 5, THEN c2, THEN c2, THEN c2, THEN c2, THEN c2,
        THEN c2, THEN conjunct1]
    by simp
  moreover have "angleTo \<lparr>x = 0, y = 0\<rparr> \<lparr>x = 5, y = 0\<rparr> = 0"
    using getAngle_angleTo_range [where p = "\<lparr>x = 0, y = 0\<rparr>" and q = "\<lparr>x = 5, y = 0\<rparr>",
        THEN c2, THEN c2, THEN c2, THEN c2, THEN c2, THEN c2, THEN c2]
    by simp
  ultimately show ?thesis by simp
qed

section \<open>The life cycle of the inputs\<close>

lemma normalizeEvent_simps:
  "normalizeEvent ''mousedown'' = Some Start" "normalizeEvent ''mousemove'' = Some Move"
  "normalizeEvent ''mouseup'' = Some End" "normalizeEvent ''touchstart'' = Some Start"
  "normalizeEvent ''touchmove'' = Some Move" "normalizeEvent ''touchend'' = Some End"
  by (simp_all add: normalizeEvent_def)

lemma array_get_set:
  "array_get (array_set xs i v) j = (if j = i then Some v else array_get xs j)"
  by (auto simp add: array_get_def array_set_def nth_append)

lemma updateInput_start:
  assumes "normalizeEvent (ev_type ev) = Some Start" and "mk ev (Some ident) = Inr z"
  shows "updateInput mk inputs ev ident =
           Inr (array_set inputs ident
                  \<lparr>initial = z, current = z, previous = z, input_id = ident,
                   progress = Map.empty\<rparr>)"
  using assms by (simp add: updateInput_def new_Input_def)

lemma update_start_unseen:
  assumes "normalizeEvent (ev_type ev) = Some Start" and "findInputById inputs ident = None"
    and "new_ZingEvent ev (Some ident) = Inr z"
  shows "update inputs ev ident rect =
           Inr (inputs @ [\<lparr>initial = z, current = z, previous = z, input_id = ident,
                           progress = Map.empty\<rparr>])"
  using assms by (simp add: update_def new_Input_def Let_def)

lemma update_start_seen:
  assumes "normalizeEvent (ev_type ev) = Some Start" and "findInputById inputs ident \<noteq> None"
  shows "update inputs ev ident rect = Inr []"
  using assms by (auto simp add: update_def Let_def resetInputs_def)

lemma update_missing:
  assumes "normalizeEvent (ev_type ev) \<noteq> Some Start" and "findInputById inputs ident = None"
  shows "update inputs ev ident rect = Inr []"
  using assms by (simp add: update_def Let_def resetInputs_def)

lemma updateInput_missing:
  assumes "normalizeEvent (ev_type ev) \<noteq> Some Start" and "array_get inputs ident = None"
  shows "updateInput mk inputs ev ident = Inr inputs"
  using assms by (simp add: updateInput_def)

text \<open>
  Claim C7, as the bundled build contradicts it. Touch 0 is down and touch 1 has been
  lifted, so the input of touch 1 is in End phase. A Start event for identifier 1 could be
  wrapped into an event, but \<open>update\<close> creates no input for it: the whole set of inputs
  is emptied.
\<close>

theorem start_on_ended_input_counterexample:
  "ztype (current finger1_lifted) = Some End \<and>
   normalizeEvent (ev_type (touchEvent ''touchstart'' 1 5 5)) = Some Start \<and>
   new_ZingEvent (touchEvent ''touchstart'' 1 5 5) (Some 1) =
     Inr (zing (touchEvent ''touchstart'' 1 5 5) Start 5 5) \<and>
   update [finger0_down, finger1_lifted] (touchEvent ''touchstart'' 1 5 5) 1 region = Inr []"
  by (simp add: update_def findInputById_def finger0_down_def finger1_lifted_def zing_def
      touchEvent_def normalizeEvent_simps resetInputs_def new_ZingEvent_def Let_def)

text \<open>
  Claim C7, amended. Let the event be a Start event. In \<open>State.updateInput\<close> of the
  refactored core, whenever the event can be wrapped, a fresh input, whose initial,
  current and previous events are all the new event and whose progress is empty, is
  stored at the identifier, in place of whatever input was held there (in End phase or
  not), and every other slot is left as it was. In the bundled build, a Start event for
  an identifier without an input appends such a fresh input to the set; a Start event
  for an identifier that still has an input, in End phase or not, creates no input and
  empties the set.
\<close>

theorem start_creates_input:
  assumes "normalizeEvent (ev_type ev) = Some Start"
  shows "(\<forall>z. mk ev (Some ident) = Inr z \<longrightarrow>
            (\<exists>inputs'. updateInput mk inputs ev ident = Inr inputs' \<and>
               array_get inputs' ident =
                 Some \<lparr>initial = z, current = z, previous = z, input_id = ident,
                       progress = Map.empty\<rparr> \<and>
               (\<forall>j. j \<noteq> ident \<longrightarrow> array_get inputs' j = array_get inputs j))) \<and>
         (\<forall>z. findInputById binputs ident = None \<and> new_ZingEvent ev (Some ident) = Inr z \<longrightarrow>
            update binputs ev ident rect =
              Inr (binputs @ [\<lparr>initial = z, current = z, previous = z, input_id = ident,
                               progress = Map.empty\<rparr>])) \<and>
         (findInputById binputs ident \<noteq> None \<longrightarrow> update binputs ev ident rect = Inr [])"
  using assms
  by (simp add: updateInput_start update_start_unseen update_start_seen array_get_set)

theorem start_creates_input_witness:
  "updateInput new_ZingEvent [None, Some finger1_lifted] (touchEvent ''touchstart'' 1 5 5) 1 =
     Inr [None,
          Some \<lparr>initial = zing (touchEvent ''touchstart'' 1 5 5) Start 5 5,
                current = zing (touchEvent ''touchstart'' 1 5 5) Start 5 5,
                previous = zing (touchEvent ''touchstart'' 1 5 5) Start 5 5,
                input_id = 1, progress = Map.empty\<rparr>] \<and>
   update [finger0_down] (touchEvent ''touchstart'' 1 5 5) 1 region =
     Inr [finger0_down,
          \<lparr>initial = zing (touchEvent ''touchstart'' 1 5 5) Start 5 5,
           current = zing (touchEvent ''touchstart'' 1 5 5) Start 5 5,
           previous = zing (touchEvent ''touchstart'' 1 5 5) Start 5 5,
           input_id = 1, progress = Map.empty\<rparr>] \<and>
   update [finger0_down, finger1_lifted] (touchEvent ''touchstart'' 1 5 5) 1 region = Inr []"
proof -
  let ?ev = "touchEvent ''touchstart'' 1 5 5"
  let ?z = "zing ?ev Start 5 5"
  have start: "normalizeEvent (ev_type ?ev) = Some Start"
    by (simp add: touchEvent_def normalizeEvent_simps)
  have wrap: "new_ZingEvent ?ev (Some 1) = Inr ?z"
    by (simp add: new_ZingEvent_def touchEvent_def zing_def normalizeEvent_simps)
  have unseen: "findInputById [finger0_down] 1 = None"
    by (simp add: findInputById_def finger0_down_def Let_def)
  have seen: "findInputById [finger0_down, finger1_lifted] 1 \<noteq> None"
    by (simp add: findInputById_def finger0_down_def finger1_lifted_def Let_def)
  from start_creates_input [OF start, of new_ZingEvent 1 "[None, Some finger1_lifted]"
      "[finger0_down]" region] wrap unseen
  have a: "\<exists>inputs'. updateInput new_ZingEvent [None, Some finger1_lifted] ?ev 1 = Inr inputs' \<and>
             array_get inputs' 1 =
               Some \<lparr>initial = ?z, current = ?z, previous = ?z, input_id = 1,
                     progress = Map.empty\<rparr>"
    and b: "update [finger0_down] ?ev 1 region =
              Inr [finger0_down, \<lparr>initial = ?z, current = ?z, previous = ?z, input_id = 1,
                                  progress = Map.empty\<rparr>]"
    by auto
  from start_creates_input [OF start, of new_ZingEvent 1 "[]"
      "[finger0_down, finger1_lifted]" region] seen
  have c: "update [finger0_down, finger1_lifted] ?ev 1 region = Inr []"
    by simp
  have d: "updateInput new_ZingEvent [None, Some finger1_lifted] ?ev 1 =
             Inr [None, Some \<lparr>initial = ?z, current = ?z, previous = ?z, input_id = 1,
                               progress = Map.empty\<rparr>]"
    using start wrap by (simp add: updateInput_def new_Input_def array_set_def)
  from b c d show ?thesis by simp
qed

text \<open>
  Claim C8, as the refactored core contradicts it. The set holds the input of touch 0
  only. A Move event for identifier 1, which has no input, leaves the set as it is:
  the set is not emptied.
\<close>

theorem move_without_input_counterexample:
  "normalizeEvent (ev_type (touchEvent ''touchmove'' 1 5 5)) = Some Move \<and>
   array_get [Some finger0_down] 1 = None \<and>
   updateInput new_ZingEvent [Some finger0_down] (touchEvent ''touchmove'' 1 5 5) 1 =
     Inr [Some finger0_down] \<and>
   updateInput new_ZingEvent [Some finger0_down] (touchEvent ''touchmove'' 1 5 5) 1 \<noteq> Inr []"
  by (simp add: updateInput_def array_get_def touchEvent_def normalizeEvent_simps)

text \<open>
  Claim C8, amended. Let the event be a Move or an End event for an identifier that has
  no input. Then no input is updated or created and no error is raised; the bundled
  build empties the region's set of inputs, whereas \<open>State.updateInput\<close> of the
  refactored core leaves the set exactly as it was.
\<close>

theorem move_end_without_input:
  assumes "normalizeEvent (ev_type ev) = Some Move \<or> normalizeEvent (ev_type ev) = Some End"
  shows "(findInputById binputs ident = None \<longrightarrow> update binputs ev ident rect = Inr []) \<and>
         (array_get inputs ident = None \<longrightarrow> updateInput mk inputs ev ident = Inr inputs)"
proof -
  from assms have "normalizeEvent (ev_type ev) \<noteq> Some Start" by auto
  then show ?thesis by (simp add: update_missing updateInput_missing)
qed

theorem move_end_without_input_witness:
  "update [finger0_down] (touchEvent ''touchend'' 1 5 5) 1 region = Inr [] \<and>
   updateInput new_ZingEvent [Some finger0_down] (touchEvent ''touchend'' 1 5 5) 1 =
     Inr [Some finger0_down]"
proof -
  let ?ev = "touchEvent ''touchend'' 1 5 5"
  have ph: "normalizeEvent (ev_type ?ev) = Some Move \<or> normalizeEvent (ev_type ?ev) = Some End"
    by (simp add: touchEvent_def normalizeEvent_simps)
  have unseen: "findInputById [finger0_down] 1 = None"
    by (simp add: findInputById_def finger0_down_def Let_def)
  have hole: "array_get [Some finger0_down] 1 = None"
    by (simp add: array_get_def)
  from move_end_without_input [OF ph, of "[finger0_down]" 1 region "[Some finger0_down]"
      new_ZingEvent] unseen hole
  show ?thesis by simp
qed

section \<open>Pan\<close>

lemmas example_defs =
  touchInput_def zing_def getGestureProgress_def setGestureProgress_def resetProgress_def
  getId_def property_key_def empty_progress_def or_default_def

lemma sqrt_25: "sqrt 25 = 5"
proof -
  have "sqrt 25 = sqrt (5\<^sup>2)" by simp
  then show ?thesis by (simp only: real_sqrt_abs abs_numeral)
qed

lemma sqrt_100: "sqrt 100 = 10"
proof -
  have "sqrt 100 = sqrt (10\<^sup>2)" by simp
  then show ?thesis by (simp only: real_sqrt_abs abs_numeral)
qed

lemma distance_examples:
  "distanceBetweenTwoPoints 0 0 0 0 = 0" "distanceBetweenTwoPoints 0 0 3 4 = 1"
  "distanceBetweenTwoPoints 0 3 0 4 = 5" "distanceBetweenTwoPoints 0 10 0 0 = 10"
  "distanceBetweenTwoPoints 0 0 3 3 = 0" "distanceBetweenTwoPoints 0 0 0 1 = 1"
  by (simp_all add: distanceBetweenTwoPoints_def Math_round_def sqrt_25 sqrt_100)

lemma getAngle_examples:
  "getAngle 0 0 0 0 = 360" "getAngle 0 0 10 0 = 360" "getAngle 0 0 5 0 = 360"
  "getAngle 0 0 0 5 = 270" "getAngle 0 0 0 (- 5) = 90" "getAngle 0 3 0 4 = 270"
  by (simp_all add: getAngle_def Math_atan2_def)

text \<open>
  Claim C2, at an input where the code departs from it. The pan has one input and the
  threshold 2. \<open>Pan.start\<close> makes the point where an input goes down its last
  emitted point. An input whose last emitted point is \<open>(0, 0)\<close> moves to \<open>(3, 4)\<close>: it is
  5 away from its last emitted point, yet \<open>Pan.move\<close> passes the coordinates to
  \<open>distanceBetweenTwoPoints\<close> in the order \<open>x0, y0, x1, y1\<close>, finds the distance 1,
  records nothing for the input and keeps the last emitted point; what it returns is not
  \<open>null\<close> but an object with an empty \<open>data\<close>. An input whose last emitted point is
  \<open>(0, 3)\<close> moves to \<open>(0, 4)\<close>: it is 1 away, below the threshold, yet the distance
  found is 5 and the change \<open>(0, 1)\<close> is emitted.
\<close>

theorem Pan_move_swapped_coordinates:
  "Pan.numInputs pan2 = 1 \<and> Pan.threshold pan2 = 2 \<and>
   Pan_start pan2 [touchInput 0 (0, 0) (0, 0) ''touchstart'' Start (0, 0) Map.empty] =
     [touchInput 0 (0, 0) (0, 0) ''touchstart'' Start (0, 0)
        [''0-0'' \<mapsto> pan_progress (0, 0)]] \<and>
   distanceBetweenTwoPoints 0 3 0 4 = 5 \<and>
   Pan_move pan2
     [touchInput 0 (0, 0) (0, 0) ''touchmove'' Move (3, 4) [''0-0'' \<mapsto> pan_progress (0, 0)]] =
     Inr (Some [],
          [touchInput 0 (0, 0) (0, 0) ''touchmove'' Move (3, 4)
             [''0-0'' \<mapsto> pan_progress (0, 0)]]) \<and>
   distanceBetweenTwoPoints 0 0 3 4 = 1 \<and>
   Pan_move pan2
     [touchInput 0 (0, 3) (0, 3) ''touchmove'' Move (0, 4) [''0-0'' \<mapsto> pan_progress (0, 3)]] =
     Inr (Some [Some \<lparr>PanData.distanceFromOrigin = 1, directionFromOrigin = 270,
                       currentDirection = 270, change = \<lparr>x = 0, y = 1\<rparr>\<rparr>],
          [touchInput 0 (0, 3) (0, 3) ''touchmove'' Move (0, 4)
             [''0-0'' \<mapsto> pan_progress (0, 4)]])"
  by (simp add: Pan_move_def Pan_start_def pan2_def new_Pan_def pan_progress_def
      example_defs packData_def array_set_def distance_examples getAngle_examples)

section \<open>Swipe\<close>

text \<open>
  Claim C3, at an input where the code departs from it. The swipe has two inputs and the
  escape velocity 0.2. Both inputs have ended and each has recorded three moves, the last
  one at the time of the call. The first input has not moved at all, so its velocity is
  0; the second one has moved by 10 within the last 10 milliseconds, so its velocity is 1.
  The second loop of \<open>Swipe.end\<close> compares the variable \<open>velocity\<close>, which holds the
  velocity of the last input, for every position, and the swipe is emitted with both
  entries.
\<close>

theorem Swipe_end_slow_input:
  "Swipe.numInputs swipe2 = 2 \<and> escapeVelocity swipe2 = 2 / 10 \<and>
   fst (Swipe_end swipe2 20
          [touchInput 0 (0, 0) (0, 0) ''touchend'' End (0, 0)
             [''0-3'' \<mapsto> swipe_progress [(0, 0, 0), (10, 0, 0), (20, 0, 0)]],
           touchInput 1 (0, 0) (0, 0) ''touchend'' End (10, 0)
             [''0-3'' \<mapsto> swipe_progress [(0, 0, 0), (10, 0, 0), (20, 10, 0)]]]) =
     Some [Some \<lparr>velocity = 0, distance = 0, duration = 10, currentDirection = 360\<rparr>,
           Some \<lparr>velocity = 1, distance = 10, duration = 10, currentDirection = 360\<rparr>]"
  by (simp add: Swipe_end_def swipe2_def new_Swipe_def swipe_progress_def example_defs
      getVelocity_def distance_examples getAngle_examples array_set_def Let_def list_ex_iff)

lemma Swipe_move_appends:
  assumes "Swipe.numInputs this = length inputs"
  shows "map (\<lambda>input. moves (fst (getGestureProgress input (property_key (getId this)))))
           (Swipe_move this now inputs) =
         map (\<lambda>input.
                Some ((case moves (fst (getGestureProgress input (property_key (getId this)))) of
                         None \<Rightarrow> [] | Some ms \<Rightarrow> ms) @
                      [\<lparr>time = now, sx = ex (current input), sy = ey (current input)\<rparr>]))
           inputs"
  using assms
  by (simp add: Swipe_move_def undefined_gt_def getGestureProgress_def setGestureProgress_def
      Let_def empty_progress_def split: option.splits)

text \<open>
  Claim C9, at an input where the code departs from it. The swipe keeps the default
  \<open>maxProgressStack\<close> of 10. After eleven move updates of one input, at the times 1 to
  11, the progress of the input holds eleven moves: the test before \<open>moves.shift()\<close>
  reads the length of the progress object instead of the length of \<open>moves\<close>, and never
  holds.
\<close>

theorem Swipe_move_keeps_every_move:
  "Swipe.numInputs swipe1 = 1 \<and> maxProgressStack swipe1 = 10 \<and>
   map (\<lambda>input. map_option length (moves (fst (getGestureProgress input ''0-3''))))
     (fold (Swipe_move swipe1) [1, 2, 3, 4, 5, 6, 7, 8, 9, 10, 11]
        [touchInput 0 (0, 0) (0, 0) ''touchmove'' Move (1, 0) Map.empty]) = [Some 11]"
  by (simp add: Swipe_move_def swipe1_def new_Swipe_def example_defs undefined_gt_def Let_def)

section \<open>Tap\<close>

lemma getGestureProgress_again:
  "fst (getGestureProgress (snd (getGestureProgress input k)) k) = fst (getGestureProgress input k)"
  by (simp add: getGestureProgress_def split: option.splits)

lemma getGestureProgress_present:
  "start (fst (getGestureProgress input k)) \<noteq> None \<Longrightarrow> snd (getGestureProgress input k) = input"
  by (simp add: getGestureProgress_def empty_progress_def split: option.splits)

lemma getGestureProgress_reset:
  "fst (getGestureProgress (resetProgress input k) k) = empty_progress"
  by (simp add: getGestureProgress_def resetProgress_def)

lemma Tap_end_loop_stamps:
  "Tap_end_loop this inputs t = (r, inputs') \<Longrightarrow>
     length inputs' = length inputs \<and> map (tap_stamp this) inputs' = map (tap_stamp this) inputs"
proof (induction inputs arbitrary: t r inputs')
  case Nil
  then show ?case by simp
next
  case (Cons input rest)
  show ?case
  proof (cases "ztype (current input) \<noteq> Some End")
    case True
    with Cons.prems show ?thesis by simp
  next
    case False
    obtain prog input1 where g: "getGestureProgress input (property_key (gtype this)) = (prog, input1)"
      by (cases "getGestureProgress input (property_key (gtype this))")
    have s1: "tap_stamp this input1 = tap_stamp this input"
      using getGestureProgress_again [of input "property_key (gtype this)"] g by simp
    show ?thesis
    proof (cases "start prog")
      case None
      with Cons.prems False g s1 show ?thesis by auto
    next
      case (Some s)
      show ?thesis
      proof (cases "s = 0")
        case True
        with Cons.prems False g s1 Some show ?thesis by auto
      next
        case nz: False
        obtain r2 rest' where l: "Tap_end_loop this rest (if s < t then s else t) = (r2, rest')"
          by (cases "Tap_end_loop this rest (if s < t then s else t)")
        from Cons.IH [OF l] Cons.prems False g s1 Some nz l show ?thesis by auto
      qed
    qed
  qed
qed

lemma Tap_end_loop_ready:
  "tap_ready this inputs \<Longrightarrow>
     Tap_end_loop this inputs t = (Some (fold min (List.map_filter (tap_stamp this) inputs) t), inputs)"
proof (induction inputs arbitrary: t)
  case Nil
  then show ?case by (simp add: List.map_filter_simps)
next
  case (Cons input rest)
  from Cons.prems have e: "ztype (current input) = Some End" and tr: "truthy (tap_stamp this input)"
    and rest: "tap_ready this rest"
    by simp_all
  from tr obtain s where s: "tap_stamp this input = Some s" "s \<noteq> 0"
    by (auto simp add: truthy_def split: option.splits)
  from s have same: "snd (getGestureProgress input (property_key (gtype this))) = input"
    by (intro getGestureProgress_present) simp
  have m: "(if s < t then s else t) = min s t" by (simp add: min_def)
  show ?case
    using e s same Cons.IH [OF rest, of "min s t"]
    by (simp add: List.map_filter_simps split_beta m)
qed

lemma Tap_end_loop_not_ready:
  "\<not> tap_ready this inputs \<Longrightarrow> fst (Tap_end_loop this inputs t) = None"
proof (induction inputs arbitrary: t)
  case Nil
  then show ?case by simp
next
  case (Cons input rest)
  show ?case
  proof (cases "ztype (current input) = Some End \<and> truthy (tap_stamp this input)")
    case True
    with Cons.prems have "\<not> tap_ready this rest" by simp
    from Cons.IH [OF this] True show ?thesis
      by (auto simp add: split_beta truthy_def split: option.splits)
  next
    case False
    then show ?thesis by (auto simp add: split_beta truthy_def split: option.splits)
  qed
qed

lemma Tap_end_ready:
  assumes "length inputs = Tap.numInputs this" and "tap_ready this inputs"
  shows "Tap_end this now inputs =
           (if minDelay this \<le> now - tap_earliest this inputs \<and>
               now - tap_earliest this inputs \<le> maxDelay this
            then (Some (now - tap_earliest this inputs), inputs)
            else (None, map (\<lambda>input. resetProgress input (property_key (gtype this))) inputs))"
proof -
  have m: "tap_earliest this inputs =
             fold min (List.map_filter (tap_stamp this) inputs) Number_MAX_VALUE"
    by (rule Min.set_eq_fold)
  show ?thesis
    unfolding m
    using assms(1) Tap_end_loop_ready [OF assms(2), of Number_MAX_VALUE]
    by (simp add: Tap_end_def Let_def)
qed

lemma Tap_end_not_ready:
  assumes "length inputs \<noteq> Tap.numInputs this \<or> \<not> tap_ready this inputs"
  shows "fst (Tap_end this now inputs) = None \<and>
         map (tap_stamp this) (snd (Tap_end this now inputs)) = map (tap_stamp this) inputs"
proof (cases "length inputs \<noteq> Tap.numInputs this")
  case True
  then show ?thesis by (simp add: Tap_end_def)
next
  case False
  with assms have nr: "\<not> tap_ready this inputs" by blast
  obtain r inputs' where l: "Tap_end_loop this inputs Number_MAX_VALUE = (r, inputs')"
    by (cases "Tap_end_loop this inputs Number_MAX_VALUE")
  from Tap_end_loop_not_ready [OF nr, of Number_MAX_VALUE] l have "r = None" by simp
  with False l Tap_end_loop_stamps [OF l] show ?thesis by (simp add: Tap_end_def)
qed

lemma Tap_move_cases:
  "Tap_move this inputs =
     (if \<exists>input\<in>set inputs. tap_exceeds this input
      then map (\<lambda>input. resetProgress input (property_key (gtype this))) inputs
      else inputs)"
proof -
  have "list_ex (\<lambda>input. ztype (current input) = Some Move \<and>
                    \<not> isWithin (ex (current input)) (ey (current input))
                         (ex (previous input)) (ey (previous input)) (tolerance this)) inputs
        = (\<exists>input\<in>set inputs. tap_exceeds this input)"
    by (auto simp add: list_ex_iff isWithin_def)
  then show ?thesis by (simp add: Tap_move_def)
qed

lemma Tap_start_stamps:
  "length inputs = Tap.numInputs this \<Longrightarrow>
     map (tap_stamp this) (Tap_start this now inputs) = map (\<lambda>input. Some now) inputs"
  by (simp add: Tap_start_def getGestureProgress_def setGestureProgress_def split_beta
      split: option.splits)

lemmas tap_example_defs =
  example_defs tap_progress_def tap2_def new_Tap_def

lemma Number_MAX_VALUE_gt: "1000 < Number_MAX_VALUE"
  by (simp add: Number_MAX_VALUE_def)

text \<open>
  Claim C4, as the code contradicts it. A tap of two inputs: both inputs hold the start
  stamp 1000, the first has ended and the second has not. \<open>Tap.end\<close> at the time 1100
  emits nothing, and it resets nothing either: both inputs keep their progress, and when
  the second input has ended too, the tap is emitted with the interval 100.
\<close>

theorem Tap_end_waiting_counterexample:
  "Tap_end tap2 1100
     [touchInput 0 (1, 1) (1, 1) ''touchend'' End (1, 1) [''tap'' \<mapsto> tap_progress 1000],
      touchInput 1 (2, 2) (2, 2) ''touchmove'' Move (2, 2) [''tap'' \<mapsto> tap_progress 1000]] =
     (None,
      [touchInput 0 (1, 1) (1, 1) ''touchend'' End (1, 1) [''tap'' \<mapsto> tap_progress 1000],
       touchInput 1 (2, 2) (2, 2) ''touchmove'' Move (2, 2) [''tap'' \<mapsto> tap_progress 1000]]) \<and>
   fst (Tap_end tap2 1100
     [touchInput 0 (1, 1) (1, 1) ''touchend'' End (1, 1) [''tap'' \<mapsto> tap_progress 1000],
      touchInput 1 (2, 2) (2, 2) ''touchend'' End (2, 2) [''tap'' \<mapsto> tap_progress 1000]]) = Some 100"
  by (simp add: Tap_end_def tap_example_defs Number_MAX_VALUE_gt Let_def)

text \<open>
  Claim C4, amended. On an end update \<open>Tap.end\<close> emits the interval \<open>i\<close> if and only if
  the number of inputs is \<open>numInputs\<close>, every input is in End phase and holds a start
  stamp in its tap progress, and \<open>i\<close>, the time elapsed since the earliest of these
  stamps, lies between \<open>minDelay\<close> and \<open>maxDelay\<close>. When the first three conditions
  hold and the interval is out of range, nothing is emitted and the tap progress of
  every input is reset. When the number of inputs differs, an input has not ended or an
  input holds no stamp, nothing is emitted and every input keeps the stamp it has.
  The stamps are what records the movement: \<open>Tap.move\<close> resets the tap progress of
  every input as soon as an input in Move phase is further than \<open>tolerance\<close>, along x
  or along y, from its previous event, and leaves the inputs alone otherwise. A reset
  progress is the empty progress, and \<open>Tap.start\<close> on \<open>numInputs\<close> inputs stamps
  every input with the time of the call.
\<close>

theorem Tap_end_emits:
  "(fst (Tap_end this now inputs) = Some i \<longleftrightarrow>
      length inputs = Tap.numInputs this \<and> tap_ready this inputs \<and>
      i = now - tap_earliest this inputs \<and> minDelay this \<le> i \<and> i \<le> maxDelay this) \<and>
   (length inputs = Tap.numInputs this \<and> tap_ready this inputs \<and>
    \<not> (minDelay this \<le> now - tap_earliest this inputs \<and>
       now - tap_earliest this inputs \<le> maxDelay this) \<longrightarrow>
      Tap_end this now inputs =
        (None, map (\<lambda>input. resetProgress input (property_key (gtype this))) inputs)) \<and>
   (length inputs \<noteq> Tap.numInputs this \<or> \<not> tap_ready this inputs \<longrightarrow>
      fst (Tap_end this now inputs) = None \<and>
      map (tap_stamp this) (snd (Tap_end this now inputs)) = map (tap_stamp this) inputs) \<and>
   ((\<exists>input\<in>set inputs. tap_exceeds this input) \<longrightarrow>
      Tap_move this inputs =
        map (\<lambda>input. resetProgress input (property_key (gtype this))) inputs) \<and>
   (\<not> (\<exists>input\<in>set inputs. tap_exceeds this input) \<longrightarrow> Tap_move this inputs = inputs) \<and>
   fst (getGestureProgress (resetProgress input (property_key (gtype this)))
          (property_key (gtype this))) = empty_progress \<and>
   (length inputs = Tap.numInputs this \<longrightarrow>
      map (tap_stamp this) (Tap_start this now inputs) = map (\<lambda>input. Some now) inputs)"
proof -
  have a: "fst (Tap_end this now inputs) = Some i \<longleftrightarrow>
      length inputs = Tap.numInputs this \<and> tap_ready this inputs \<and>
      i = now - tap_earliest this inputs \<and> minDelay this \<le> i \<and> i \<le> maxDelay this"
  proof (cases "length inputs = Tap.numInputs this \<and> tap_ready this inputs")
    case True
    then have "length inputs = Tap.numInputs this" and "tap_ready this inputs" by blast+
    from Tap_end_ready [OF this, of now] True show ?thesis by auto
  next
    case False
    then have "length inputs \<noteq> Tap.numInputs this \<or> \<not> tap_ready this inputs" by blast
    from Tap_end_not_ready [OF this, of now] False show ?thesis by auto
  qed
  have b: "length inputs = Tap.numInputs this \<and> tap_ready this inputs \<and>
    \<not> (minDelay this \<le> now - tap_earliest this inputs \<and>
       now - tap_earliest this inputs \<le> maxDelay this) \<longrightarrow>
      Tap_end this now inputs =
        (None, map (\<lambda>input. resetProgress input (property_key (gtype this))) inputs)"
    using Tap_end_ready [of inputs this now] by auto
  have c: "length inputs \<noteq> Tap.numInputs this \<or> \<not> tap_ready this inputs \<longrightarrow>
      fst (Tap_end this now inputs) = None \<and>
      map (tap_stamp this) (snd (Tap_end this now inputs)) = map (tap_stamp this) inputs"
    using Tap_end_not_ready [of inputs this now] by blast
  have d: "(\<exists>input\<in>set inputs. tap_exceeds this input) \<longrightarrow>
      Tap_move this inputs =
        map (\<lambda>input. resetProgress input (property_key (gtype this))) inputs"
    and e: "\<not> (\<exists>input\<in>set inputs. tap_exceeds this input) \<longrightarrow> Tap_move this inputs = inputs"
    using Tap_move_cases [of this inputs] by presburger+
  have f: "length inputs = Tap.numInputs this \<longrightarrow>
      map (tap_stamp this) (Tap_start this now inputs) = map (\<lambda>input. Some now) inputs"
    using Tap_start_stamps by blast
  from a b c d e f getGestureProgress_reset show ?thesis by blast
qed

theorem Tap_end_emits_witness:
  "fst (Tap_end (new_Tap None) 1150
     [touchInput 0 (1, 1) (1, 1) ''touchend'' End (1, 1) [''tap'' \<mapsto> tap_progress 1000]]) = Some 150 \<and>
   Tap_end (new_Tap None) 1400
     [touchInput 0 (1, 1) (1, 1) ''touchend'' End (1, 1) [''tap'' \<mapsto> tap_progress 1000]] =
     (None, [touchInput 0 (1, 1) (1, 1) ''touchend'' End (1, 1) [''tap'' \<mapsto> empty_progress]]) \<and>
   fst (Tap_end (new_Tap None) 1150
     [touchInput 0 (1, 1) (1, 1) ''touchmove'' Move (1, 1) [''tap'' \<mapsto> tap_progress 1000]]) = None \<and>
   Tap_move (new_Tap None)
     [touchInput 0 (1, 1) (1, 1) ''touchmove'' Move (1, 12) [''tap'' \<mapsto> tap_progress 1000]] =
     [touchInput 0 (1, 1) (1, 1) ''touchmove'' Move (1, 12) [''tap'' \<mapsto> empty_progress]] \<and>
   Tap_move (new_Tap None)
     [touchInput 0 (1, 1) (1, 1) ''touchmove'' Move (1, 11) [''tap'' \<mapsto> tap_progress 1000]] =
     [touchInput 0 (1, 1) (1, 1) ''touchmove'' Move (1, 11) [''tap'' \<mapsto> tap_progress 1000]] \<and>
   Tap_start (new_Tap None) 2000
     [touchInput 0 (1, 1) (1, 1) ''touchstart'' Start (1, 1) [''tap'' \<mapsto> empty_progress]] =
     [touchInput 0 (1, 1) (1, 1) ''touchstart'' Start (1, 1) [''tap'' \<mapsto> tap_progress 2000]]"
proof -
  let ?tap = "new_Tap None"
  let ?ended = "touchInput 0 (1, 1) (1, 1) ''touchend'' End (1, 1) [''tap'' \<mapsto> tap_progress 1000]"
  let ?moving = "touchInput 0 (1, 1) (1, 1) ''touchmove'' Move (1, 1) [''tap'' \<mapsto> tap_progress 1000]"
  let ?far = "touchInput 0 (1, 1) (1, 1) ''touchmove'' Move (1, 12) [''tap'' \<mapsto> tap_progress 1000]"
  let ?near = "touchInput 0 (1, 1) (1, 1) ''touchmove'' Move (1, 11) [''tap'' \<mapsto> tap_progress 1000]"
  let ?fresh = "touchInput 0 (1, 1) (1, 1) ''touchstart'' Start (1, 1) [''tap'' \<mapsto> empty_progress]"
  have early: "tap_earliest ?tap [?ended] = 1000"
    using Number_MAX_VALUE_gt by (simp add: tap_example_defs List.map_filter_simps)
  have ready: "length [?ended] = Tap.numInputs ?tap \<and> tap_ready ?tap [?ended]"
    by (simp add: tap_example_defs truthy_def)
  have a: "fst (Tap_end ?tap 1150 [?ended]) = Some 150"
    using Tap_end_emits [of ?tap 1150 "[?ended]" 150, THEN conjunct1] ready early
    by (simp add: tap_example_defs)
  have b: "Tap_end ?tap 1400 [?ended] =
             (None, [touchInput 0 (1, 1) (1, 1) ''touchend'' End (1, 1) [''tap'' \<mapsto> empty_progress]])"
    using Tap_end_emits [of ?tap 1400 "[?ended]", THEN conjunct2, THEN conjunct1] ready early
    by (simp add: tap_example_defs)
  have c: "fst (Tap_end ?tap 1150 [?moving]) = None"
    using Tap_end_emits [of ?tap 1150 "[?moving]", THEN conjunct2, THEN conjunct2, THEN conjunct1]
    by (simp add: tap_example_defs)
  have d: "Tap_move ?tap [?far] =
             [touchInput 0 (1, 1) (1, 1) ''touchmove'' Move (1, 12) [''tap'' \<mapsto> empty_progress]]"
    using Tap_end_emits [of ?tap _ "[?far]", THEN conjunct2, THEN conjunct2, THEN conjunct2,
        THEN conjunct1]
    by (simp add: tap_example_defs)
  have e: "Tap_move ?tap [?near] = [?near]"
    using Tap_end_emits [of ?tap _ "[?near]", THEN conjunct2, THEN conjunct2, THEN conjunct2,
        THEN conjunct2, THEN conjunct1]
    by (simp add: tap_example_defs)
  have f: "Tap_start ?tap 2000 [?fresh] =
             [touchInput 0 (1, 1) (1, 1) ''touchstart'' Start (1, 1) [''tap'' \<mapsto> tap_progress 2000]]"
    by (simp add: Tap_start_def tap_example_defs)
  from a b c d e f show ?thesis by blast
qed

section \<open>Rotate\<close>

lemma js_rem_360_bounds: "\<bar>js_rem a 360\<bar> < 360"
proof (cases "0 \<le> a / 360")
  case True
  have "of_int \<lfloor>a / 360\<rfloor> \<le> a / 360" "a / 360 < of_int \<lfloor>a / 360\<rfloor> + 1" by linarith+
  then have "360 * of_int \<lfloor>a / 360\<rfloor> \<le> a" "a < 360 * of_int \<lfloor>a / 360\<rfloor> + 360" by linarith+
  with True show ?thesis by (simp add: js_rem_def Let_def)
next
  case False
  have "a / 360 \<le> of_int \<lceil>a / 360\<rceil>" "of_int \<lceil>a / 360\<rceil> < a / 360 + 1" by linarith+
  then have "a \<le> 360 * of_int \<lceil>a / 360\<rceil>" "360 * of_int \<lceil>a / 360\<rceil> < a + 360" by linarith+
  with False show ?thesis by (simp add: js_rem_def Let_def)
qed

lemma getAngularDistance_range:
  "- 180 \<le> getAngularDistance a b \<and> getAngularDistance a b \<le> 180"
  using js_rem_360_bounds [of "b - a"]
  by (auto simp add: getAngularDistance_def Let_def)

lemma Rotate_move_step:
  assumes "Rotate_move this inputs rect = Inr (Some d, inputs')"
  shows "- 180 \<le> distanceFromLast d \<and> distanceFromLast d \<le> 180"
proof -
  note r = getAngularDistance_range
  from assms show ?thesis
    unfolding Rotate_move_def Let_def
    by (auto split: if_splits sum.splits prod.splits option.splits list.splits simp add: r)
qed

lemma getAngularDistance_examples:
  "getAngularDistance 270 360 = - 90" "getAngularDistance 360 90 = 90"
  "getAngularDistance 0 90 = - 90" "getAngularDistance 90 180 = - 90"
  by (simp_all add: getAngularDistance_def js_rem_def Let_def)

text \<open>
  Claim C6, at an input where the code departs from it. One input turns about the
  centre \<open>(0, 0)\<close> of the element, from below the centre to its right and on to above
  it: two quarter turns in the same direction, through the angles 270, 360 and 90. The
  step from 270 to 360 is counted as -90, the step from 360 to 90, which crosses the
  jump of the angle, as +90, and the distance from the origin is back at 0 after half a
  turn. From 0 to 90, which is the same step as from 360 to 90, the angular distance is
  -90: the sign of \<open>util.getAngularDistance\<close> is wrong where the difference of the
  angles exceeds 180.
\<close>

theorem Rotate_move_across_the_jump:
  "Rotate_move rotate1
     [touchInput 0 (0, 5) (0, 5) ''touchmove'' Move (0, 5) Map.empty] box =
     Inr (Some \<lparr>angle = 270, distanceFromOrigin = 0, distanceFromLast = 0\<rparr>,
          [touchInput 0 (0, 5) (0, 5) ''touchmove'' Move (0, 5)
             [''0-1'' \<mapsto> rotate_progress 270 270 0 0]]) \<and>
   Rotate_move rotate1
     [touchInput 0 (0, 5) (0, 5) ''touchmove'' Move (5, 0)
        [''0-1'' \<mapsto> rotate_progress 270 270 0 0]] box =
     Inr (Some \<lparr>angle = 360, distanceFromOrigin = - 90, distanceFromLast = - 90\<rparr>,
          [touchInput 0 (0, 5) (0, 5) ''touchmove'' Move (5, 0)
             [''0-1'' \<mapsto> rotate_progress 270 360 (- 90) (- 90)]]) \<and>
   Rotate_move rotate1
     [touchInput 0 (0, 5) (5, 0) ''touchmove'' Move (0, - 5)
        [''0-1'' \<mapsto> rotate_progress 270 360 (- 90) (- 90)]] box =
     Inr (Some \<lparr>angle = 90, distanceFromOrigin = 0, distanceFromLast = 90\<rparr>,
          [touchInput 0 (0, 5) (5, 0) ''touchmove'' Move (0, - 5)
             [''0-1'' \<mapsto> rotate_progress 270 90 0 90]]) \<and>
   getAngularDistance 360 90 = 90 \<and> getAngularDistance 0 90 = - 90"
  by (simp add: Rotate_move_def rotate1_def box_def rotate_progress_def example_defs Let_def
      numActiveInputs_def truthy_def getAngularDistance_examples getAngle_examples)

section \<open>The interpreter picks the innermost binding\<close>

lemma object_assign_keys:
  "map fst (object_assign u k v) = (if k \<in> fst ` set u then map fst u else map fst u @ [k])"
proof (induction u)
  case Nil
  show ?case by simp
next
  case (Cons p u)
  obtain k' v' where p: "p = (k', v')" by (cases p)
  show ?case
  proof (cases "k' = k")
    case True
    then show ?thesis by (simp add: p)
  next
    case False
    with Cons.IH show ?thesis by (simp add: p)
  qed
qed


lemma object_assign_mem:
  "distinct (map fst u) \<Longrightarrow>
     q \<in> set (object_assign u k v) \<longleftrightarrow> q = (k, v) \<or> (q \<in> set u \<and> fst q \<noteq> k)"
proof (induction u)
  case Nil
  show ?case by simp
next
  case (Cons p u)
  obtain k' v' where p: "p = (k', v')" by (cases p)
  from Cons.prems have d: "distinct (map fst u)" and n: "k' \<notin> fst ` set u" by (simp_all add: p)
  show ?case
  proof (cases "k' = k")
    case True
    from n True have "fst q \<noteq> k" if "q \<in> set u" using that by force
    with True show ?thesis by (cases q) (force simp add: p)
  next
    case False
    from Cons.IH [OF d] False show ?thesis by (cases q) (force simp add: p)
  qed
qed

lemma best_keep:
  assumes "best path xs w" and "kind g \<noteq> kind w \<or> depth path w \<le> depth path g"
  shows "best path (xs @ [g]) w"
proof -
  from assms(1) obtain i where i: "i < length xs" "xs ! i = w"
    and m: "\<And>j. j < length xs \<Longrightarrow> kind (xs ! j) = kind w \<Longrightarrow>
           depth path w \<le> depth path (xs ! j) \<and> (depth path (xs ! j) = depth path w \<longrightarrow> i \<le> j)"
    unfolding best_def by blast
  have "depth path w \<le> depth path ((xs @ [g]) ! j) \<and>
           (depth path ((xs @ [g]) ! j) = depth path w \<longrightarrow> i \<le> j)"
    if j: "j < length (xs @ [g])" and k: "kind ((xs @ [g]) ! j) = kind w" for j
  proof (cases "j < length xs")
    case True
    then have e: "(xs @ [g]) ! j = xs ! j" by (simp add: nth_append)
    from m [OF True] k show ?thesis unfolding e by blast
  next
    case False
    with j have jl: "j = length xs" by simp
    then have e: "(xs @ [g]) ! j = g" by simp
    from k assms(2) have "depth path w \<le> depth path g" unfolding e by blast
    moreover from i(1) jl have "i \<le> j" by simp
    ultimately show ?thesis unfolding e by blast
  qed
  moreover from i have "i < length (xs @ [g])" "(xs @ [g]) ! i = w" by (simp_all add: nth_append)
  ultimately show ?thesis unfolding best_def by blast
qed

lemma best_new:
  assumes "\<And>j. j < length xs \<Longrightarrow> kind (xs ! j) = kind g \<Longrightarrow> depth path g < depth path (xs ! j)"
  shows "best path (xs @ [g]) g"
proof -
  have "depth path g \<le> depth path ((xs @ [g]) ! j) \<and>
           (depth path ((xs @ [g]) ! j) = depth path g \<longrightarrow> length xs \<le> j)"
    if j: "j < length (xs @ [g])" and k: "kind ((xs @ [g]) ! j) = kind g" for j
  proof (cases "j < length xs")
    case True
    then have e: "(xs @ [g]) ! j = xs ! j" by (simp add: nth_append)
    from k have "kind (xs ! j) = kind g" unfolding e .
    from assms [OF True this] show ?thesis unfolding e by simp
  next
    case False
    with j have jl: "j = length xs" by simp
    then have e: "(xs @ [g]) ! j = g" by simp
    from jl show ?thesis unfolding e by simp
  qed
  moreover have "length xs < length (xs @ [g])" "(xs @ [g]) ! length xs = g" by simp_all
  ultimately show ?thesis unfolding best_def by blast
qed

lemma inv_step:
  assumes "inv path xs u"
  shows "inv path (xs @ [g]) (toBeDispatched_step path u g)"
proof -
  from assms have d: "distinct (map fst u)" and ks: "fst ` set u = kind ` set xs"
    and b: "\<And>p. p \<in> set u \<Longrightarrow> fst p = kind (snd p) \<and> best path xs (snd p)"
    unfolding inv_def by blast+
  have others: "best path (xs @ [g]) (snd p)" if p: "p \<in> set u" "fst p \<noteq> kind g" for p
  proof -
    from b [OF p(1)] have "best path xs (snd p)" "fst p = kind (snd p)" by blast+
    with p(2) show ?thesis by (intro best_keep) simp_all
  qed
  have assigned: "inv path (xs @ [g]) (object_assign u (kind g) g)"
    if bg: "best path (xs @ [g]) g"
  proof -
    have keys: "set (map fst (object_assign u (kind g) g)) = insert (kind g) (set (map fst u))"
      by (simp only: object_assign_keys) auto
    have dist: "distinct (map fst (object_assign u (kind g) g))"
      using d by (simp add: object_assign_keys)
    have "fst ` set (object_assign u (kind g) g) = kind ` set (xs @ [g])"
      using keys ks by simp
    moreover have "fst p = kind (snd p) \<and> best path (xs @ [g]) (snd p)"
      if "p \<in> set (object_assign u (kind g) g)" for p
    proof -
      from that object_assign_mem [OF d, of p "kind g" g]
      consider "p = (kind g, g)" | "p \<in> set u" "fst p \<noteq> kind g" by blast
      then show ?thesis
      proof cases
        case 1
        with bg show ?thesis by simp
      next
        case 2
        with b [OF 2(1)] others [OF 2] show ?thesis by blast
      qed
    qed
    ultimately show ?thesis using dist unfolding inv_def by blast
  qed
  show ?thesis
  proof (cases "map_of u (kind g)")
    case None
    then have nk: "kind g \<notin> fst ` set u" by (simp add: map_of_eq_None_iff)
    have st: "toBeDispatched_step path u g = object_assign u (kind g) g"
      using None by (simp add: toBeDispatched_step_def)
    have bg: "best path (xs @ [g]) g"
    proof (rule best_new)
      fix j assume "j < length xs" and kj: "kind (xs ! j) = kind g"
      then have "xs ! j \<in> set xs" by simp
      then have "kind (xs ! j) \<in> kind ` set xs" by (rule imageI)
      with ks nk kj show "depth path g < depth path (xs ! j)" by metis
    qed
    from assigned [OF bg] show ?thesis by (simp only: st)
  next
    case (Some held)
    then have hm: "(kind g, held) \<in> set u" by (rule map_of_SomeD)
    from b [OF hm] have hk: "kind held = kind g" and hb: "best path xs held" by simp_all
    from hm have kin: "kind g \<in> fst ` set u" by (rule rev_image_eqI) simp
    show ?thesis
    proof (cases "depth path g < depth path held")
      case True
      have st: "toBeDispatched_step path u g = object_assign u (kind g) g"
        using Some True by (simp add: toBeDispatched_step_def)
      from hb have m: "\<And>j. j < length xs \<Longrightarrow> kind (xs ! j) = kind held \<Longrightarrow>
                          depth path held \<le> depth path (xs ! j)"
        unfolding best_def by blast
      have bg: "best path (xs @ [g]) g"
      proof (rule best_new)
        fix j assume jl: "j < length xs" and kj: "kind (xs ! j) = kind g"
        from kj hk have "kind (xs ! j) = kind held" by simp
        from m [OF jl this] True show "depth path g < depth path (xs ! j)" by simp
      qed
      from assigned [OF bg] show ?thesis by (simp only: st)
    next
      case False
      have st: "toBeDispatched_step path u g = u"
        using Some False by (simp add: toBeDispatched_step_def)
      have ks': "fst ` set u = kind ` set (xs @ [g])" using ks kin by auto
      have "fst p = kind (snd p) \<and> best path (xs @ [g]) (snd p)" if p: "p \<in> set u" for p
      proof (cases "fst p = kind g")
        case True
        with p hm d have "p = (kind g, held)"
          by (metis eq_key_imp_eq_value prod.collapse)
        moreover from hb False have "best path (xs @ [g]) held" by (intro best_keep) simp_all
        ultimately show ?thesis using hk by simp
      next
        case False
        with b [OF p] others [OF p] show ?thesis by blast
      qed
      with d ks' show ?thesis unfolding inv_def st by blast
    qed
  qed
qed

lemma inv_foldl: "inv path gestures (foldl (toBeDispatched_step path) [] gestures)"
proof (induction gestures rule: rev_induct)
  case Nil
  show ?case by (simp add: inv_def)
next
  case (snoc g xs)
  then show ?case by (simp add: inv_step)
qed

lemma arbiter_reduce_order:
  "\<exists>bs'. subseq bs' bs \<and>
     map binding (fst (arbiter_reduce run bs evs st acc)) = map binding acc @ bs'"
proof (induction bs arbitrary: st acc)
  case Nil
  show ?case by simp
next
  case (Cons b bs)
  obtain r st' where r: "run b st = (r, st')" by (cases "run b st")
  show ?case
  proof (cases r)
    case None
    from Cons.IH [of st' acc] obtain bs' where "subseq bs' bs"
      and "map binding (fst (arbiter_reduce run bs evs st' acc)) = map binding acc @ bs'"
      by blast
    with r None show ?thesis by (auto intro!: exI [of _ bs'])
  next
    case (Some d)
    from Cons.IH [of st' "acc @ [\<lparr>binding = b, cdata = d, events = evs\<rparr>]"]
    obtain bs' where "subseq bs' bs"
      and "map binding (fst (arbiter_reduce run bs evs st'
              (acc @ [\<lparr>binding = b, cdata = d, events = evs\<rparr>]))) =
           map binding (acc @ [\<lparr>binding = b, cdata = d, events = evs\<rparr>]) @ bs'"
      by blast
    with r Some show ?thesis by (auto intro!: exI [of _ "b # bs'"])
  qed
qed

lemma arbiter_order: "subseq (map binding (fst (arbiter run bindings inputs))) bindings"
  using arbiter_reduce_order [of bindings run "map current inputs" inputs "[]"]
  by (auto simp add: arbiter_def)


lemma getPathIndex_forEach_absent:
  "el \<notin> set path \<Longrightarrow> getPathIndex_forEach path el i index = index"
  by (induction path arbitrary: i index) auto

lemma getPathIndex_forEach_nth:
  "distinct path \<Longrightarrow> n < length path \<Longrightarrow> getPathIndex_forEach path (path ! n) i index = i + n"
proof (induction path arbitrary: i index n)
  case Nil
  then show ?case by simp
next
  case (Cons obj rest)
  show ?case
  proof (cases n)
    case 0
    from Cons.prems have "obj \<notin> set rest" by simp
    with 0 show ?thesis by (simp add: getPathIndex_forEach_absent)
  next
    case (Suc m)
    with Cons.prems have m: "m < length rest" and d: "distinct rest" and "obj \<notin> set rest"
      by simp_all
    then have "obj \<noteq> rest ! m" by (metis nth_mem)
    with Suc Cons.IH [OF d m] show ?thesis by simp
  qed
qed

lemma getPathIndex_nth: "distinct path \<Longrightarrow> n < length path \<Longrightarrow> getPathIndex path (path ! n) = n"
  by (simp add: getPathIndex_def getPathIndex_forEach_nth)

lemma getPathIndex_absent: "el \<notin> set path \<Longrightarrow> getPathIndex path el = length path"
  by (simp add: getPathIndex_def getPathIndex_forEach_absent)

lemma gesture_key_eq:
  "property_key (getId G) =
     (case gid G of Some i \<Rightarrow> i
      | None \<Rightarrow> (case gtype G of Some t \<Rightarrow> t | None \<Rightarrow> ''null''))"
  by (simp add: property_key_def getId_def split: option.splits)

lemma dispatch_forEach_all:
  assumes "\<forall>g\<in>set gs. \<not> bindOnce (binding g)"
  shows "dispatch_forEach gs =
           (map (\<lambda>g. new_CustomEvent (binding g) (cdata g) (events g)) gs, None)"
  using assms by (induction gs) (simp_all add: dispatcher_def)

lemma dispatch_forEach_stops:
  assumes "bindOnce (binding g)" and "\<forall>h\<in>set gs. \<not> bindOnce (binding h)"
  shows "dispatch_forEach (gs @ g # rest) =
           (map (\<lambda>g. new_CustomEvent (binding g) (cdata g) (events g)) (gs @ [g]),
            Some TypeError)"
  using assms by (induction gs) (simp_all add: dispatcher_def)

lemmas bound_defs =
  bound_def registered_pan_def registered_tap_def own_pan_def toBeDispatched_def
  toBeDispatched_step_def interpreter_dispatch_def dispatcher_def new_CustomEvent_def
  getPathIndex_def getId_def property_key_def Let_def

text \<open>
  After a winner whose binding was made with \<open>bindOnce\<close> the dispatcher throws, and the
  winners that come later are not dispatched.
\<close>

lemma interpreter_dispatch_bindOnce:
  "interpreter_dispatch [''inner'', ''outer'', ''body'']
     [bound ''outer'' registered_pan True 1, bound ''outer'' registered_tap False 3] =
     ([\<lparr>target = ''outer'', ce_type = ''0-0'', detail = 1, detail_events = []\<rparr>],
      Some TypeError)"
  by (simp add: bound_defs)

text \<open>
  Claim C1, as the code contradicts it. Two nested regions are bound to the same gesture
  kind, a pan: the outer one by the name \<open>pan\<close>, which gives the binding the pan that
  the region registered, with the id \<open>0-0\<close>, and the inner one by an object
  \<open>new Pan()\<close>, whose id stays \<open>null\<close> so that \<open>getId\<close> returns its type \<open>pan\<close>. One
  event satisfies both. The interpreter files the two candidates under the different
  names \<open>0-0\<close> and \<open>pan\<close>, and an event is dispatched for each of them, on the outer
  element too: two winners for the one gesture kind, one of them not the innermost.
\<close>

theorem same_kind_two_winners_counterexample:
  "gtype registered_pan = Some ''pan'' \<and> gtype own_pan = Some ''pan'' \<and>
   getPathIndex [''inner'', ''outer'', ''body''] ''inner'' = 0 \<and>
   getPathIndex [''inner'', ''outer'', ''body''] ''outer'' = 1 \<and>
   interpreter_dispatch [''inner'', ''outer'', ''body'']
     [bound ''outer'' registered_pan False 1, bound ''inner'' own_pan False 2] =
     ([\<lparr>target = ''outer'', ce_type = ''0-0'', detail = 1, detail_events = []\<rparr>,
       \<lparr>target = ''inner'', ce_type = ''pan'', detail = 2, detail_events = []\<rparr>],
      None)"
  by (simp add: bound_defs)

text \<open>
  Claim C1, amended. Whatever the propagation path of the event and whatever candidates
  the arbiter yields, the interpreter selects exactly one winner for every gesture
  identifier that occurs among the candidates, the identifier of a candidate being the
  id of its gesture or, when the gesture has no id, its type: the names in the object
  \<open>toBeDispatched\<close> are distinct and are the identifiers of the candidates, and under
  each name the object holds a candidate with that identifier. No candidate with the
  same identifier has an element at a smaller position in the path, that is, further
  inside, and of the candidates with the same identifier at the same position the
  winner is the first in the list, which is in the order in which the bindings were
  registered (lemma \<open>arbiter_order\<close>). The position is the one the element has in the
  path when the elements of the path are distinct, the innermost element being first,
  and the length of the path for an element that is not in the path. When no winner's
  binding was made with \<open>bindOnce\<close>, no error is raised and the events dispatched are
  those of the winners, one for each identifier.
\<close>

theorem one_winner_per_identifier:
  "distinct (map fst (toBeDispatched path gestures)) \<and>
   set (map fst (toBeDispatched path gestures)) = set (map gesture_key gestures) \<and>
   (\<forall>p\<in>set (toBeDispatched path gestures).
      fst p = gesture_key (snd p) \<and>
      (\<exists>i<length gestures. gestures ! i = snd p \<and>
         (\<forall>j<length gestures. gesture_key (gestures ! j) = gesture_key (snd p) \<longrightarrow>
            depth path (snd p) \<le> depth path (gestures ! j) \<and>
            (depth path (gestures ! j) = depth path (snd p) \<longrightarrow> i \<le> j)))) \<and>
   ((\<forall>p\<in>set (toBeDispatched path gestures). \<not> bindOnce (binding (snd p))) \<longrightarrow>
      snd (interpreter_dispatch path gestures) = None \<and>
      distinct (map ce_type (fst (interpreter_dispatch path gestures))) \<and>
      set (fst (interpreter_dispatch path gestures)) =
        (\<lambda>p. \<lparr>target = element (binding (snd p)), ce_type = gesture_key (snd p),
               detail = cdata (snd p), detail_events = events (snd p)\<rparr>) `
          set (toBeDispatched path gestures)) \<and>
   (distinct path \<longrightarrow> (\<forall>n<length path. getPathIndex path (path ! n) = n)) \<and>
   (el \<notin> set path \<longrightarrow> getPathIndex path el = length path)"
proof -
  let ?u = "toBeDispatched path gestures"
  have "inv path gestures ?u" unfolding toBeDispatched_def by (rule inv_foldl)
  then have d: "distinct (map fst ?u)" and ks: "fst ` set ?u = kind ` set gestures"
    and b: "\<And>p. p \<in> set ?u \<Longrightarrow> fst p = kind (snd p) \<and> best path gestures (snd p)"
    unfolding inv_def by blast+
  have 1: "distinct (map fst ?u)" by (rule d)
  have 2: "set (map fst ?u) = set (map gesture_key gestures)"
    using ks by (simp add: gesture_key_eq)
  have 3: "\<forall>p\<in>set ?u.
      fst p = gesture_key (snd p) \<and>
      (\<exists>i<length gestures. gestures ! i = snd p \<and>
         (\<forall>j<length gestures. gesture_key (gestures ! j) = gesture_key (snd p) \<longrightarrow>
            depth path (snd p) \<le> depth path (gestures ! j) \<and>
            (depth path (gestures ! j) = depth path (snd p) \<longrightarrow> i \<le> j)))"
  proof
    fix p assume "p \<in> set ?u"
    from b [OF this] have "fst p = kind (snd p)" and "best path gestures (snd p)" by blast+
    then show "fst p = gesture_key (snd p) \<and>
      (\<exists>i<length gestures. gestures ! i = snd p \<and>
         (\<forall>j<length gestures. gesture_key (gestures ! j) = gesture_key (snd p) \<longrightarrow>
            depth path (snd p) \<le> depth path (gestures ! j) \<and>
            (depth path (gestures ! j) = depth path (snd p) \<longrightarrow> i \<le> j)))"
      unfolding best_def gesture_key_eq by blast
  qed
  have 4: "snd (interpreter_dispatch path gestures) = None \<and>
      distinct (map ce_type (fst (interpreter_dispatch path gestures))) \<and>
      set (fst (interpreter_dispatch path gestures)) =
        (\<lambda>p. \<lparr>target = element (binding (snd p)), ce_type = gesture_key (snd p),
               detail = cdata (snd p), detail_events = events (snd p)\<rparr>) ` set ?u"
    if nb: "\<forall>p\<in>set ?u. \<not> bindOnce (binding (snd p))"
  proof -
    from nb have "\<forall>g\<in>set (map snd ?u). \<not> bindOnce (binding g)" by simp
    from dispatch_forEach_all [OF this]
    have e: "interpreter_dispatch path gestures =
               (map (\<lambda>g. new_CustomEvent (binding g) (cdata g) (events g)) (map snd ?u), None)"
      by (simp only: interpreter_dispatch_def)
    have "map ce_type (map (\<lambda>g. new_CustomEvent (binding g) (cdata g) (events g)) (map snd ?u)) =
            map fst ?u"
      using b by (simp add: new_CustomEvent_def comp_def)
    with d have "distinct (map ce_type (fst (interpreter_dispatch path gestures)))"
      by (simp only: e fst_conv)
    moreover have "set (fst (interpreter_dispatch path gestures)) =
        (\<lambda>p. \<lparr>target = element (binding (snd p)), ce_type = gesture_key (snd p),
               detail = cdata (snd p), detail_events = events (snd p)\<rparr>) ` set ?u"
      by (simp only: e fst_conv) (simp add: image_image new_CustomEvent_def gesture_key_eq)
    ultimately show ?thesis by (simp add: e)
  qed
  from 1 2 3 4 show ?thesis by (simp add: getPathIndex_nth getPathIndex_absent)
qed


theorem one_winner_per_identifier_witness:
  "map snd (toBeDispatched [''inner'', ''outer'', ''body'']
     [bound ''outer'' registered_pan False 1, bound ''inner'' registered_pan False 2,
      bound ''outer'' registered_tap False 3]) =
     [bound ''inner'' registered_pan False 2, bound ''outer'' registered_tap False 3] \<and>
   map snd (toBeDispatched [''inner'', ''outer'', ''body'']
     [bound ''outer'' registered_pan False 1, bound ''outer'' registered_pan False 4]) =
     [bound ''outer'' registered_pan False 1] \<and>
   interpreter_dispatch [''inner'', ''outer'', ''body'']
     [bound ''outer'' registered_pan False 1, bound ''inner'' registered_pan False 2,
      bound ''outer'' registered_tap False 3] =
     ([\<lparr>target = ''inner'', ce_type = ''0-0'', detail = 2, detail_events = []\<rparr>,
       \<lparr>target = ''outer'', ce_type = ''0-4'', detail = 3, detail_events = []\<rparr>],
      None) \<and>
   getPathIndex [''inner'', ''outer'', ''body''] ''inner'' = 0 \<and>
   getPathIndex [''inner'', ''outer'', ''body''] ''outer'' = 1 \<and>
   getPathIndex [''inner'', ''outer'', ''body''] ''aside'' = 3 \<and>
   depth [''inner'', ''outer'', ''body''] (bound ''inner'' registered_pan False 2)
     \<le> depth [''inner'', ''outer'', ''body''] (bound ''outer'' registered_pan False 1) \<and>
   snd (interpreter_dispatch [''inner'', ''outer'', ''body'']
     [bound ''outer'' registered_pan False 1, bound ''inner'' registered_pan False 2,
      bound ''outer'' registered_tap False 3]) = None"
proof -
  let ?path = "[''inner'', ''outer'', ''body'']"
  let ?gestures = "[bound ''outer'' registered_pan False 1, bound ''inner'' registered_pan False 2,
      bound ''outer'' registered_tap False 3]"
  let ?w = "bound ''inner'' registered_pan False 2"
  note inst = one_winner_per_identifier [of ?path ?gestures "''aside''"]
  have sel: "toBeDispatched ?path ?gestures = [(''0-0'', ?w), (''0-4'', bound ''outer'' registered_tap False 3)]"
    by (simp add: bound_defs)
  then have nested: "map snd (toBeDispatched ?path ?gestures) =
      [?w, bound ''outer'' registered_tap False 3]"
    by simp
  have tie: "map snd (toBeDispatched ?path
      [bound ''outer'' registered_pan False 1, bound ''outer'' registered_pan False 4]) =
      [bound ''outer'' registered_pan False 1]"
    by (simp add: bound_defs)
  have fwd: "interpreter_dispatch ?path ?gestures =
     ([\<lparr>target = ''inner'', ce_type = ''0-0'', detail = 2, detail_events = []\<rparr>,
       \<lparr>target = ''outer'', ce_type = ''0-4'', detail = 3, detail_events = []\<rparr>],
      None)"
    by (simp add: bound_defs)
  have dp: "distinct ?path" by simp
  note c5 = inst [THEN conjunct2, THEN conjunct2, THEN conjunct2, THEN conjunct2, THEN conjunct1]
  from c5 dp have idx: "\<forall>n<length ?path. getPathIndex ?path (?path ! n) = n" by (rule mp)
  from idx [rule_format, of 0] have p0: "getPathIndex ?path ''inner'' = 0" by simp
  from idx [rule_format, of 1] have p1: "getPathIndex ?path ''outer'' = 1" by simp
  note c6 = inst [THEN conjunct2, THEN conjunct2, THEN conjunct2, THEN conjunct2, THEN conjunct2]
  from c6 have "''aside'' \<notin> set ?path \<longrightarrow> getPathIndex ?path ''aside'' = length ?path" .
  then have p3: "getPathIndex ?path ''aside'' = 3" by simp
  have once: "\<forall>p\<in>set (toBeDispatched ?path ?gestures). \<not> bindOnce (binding (snd p))"
    by (simp only: sel) (simp add: bound_def)
  note c4 = inst [THEN conjunct2, THEN conjunct2, THEN conjunct2, THEN conjunct1]
  from c4 [THEN mp, OF once]
  have none: "snd (interpreter_dispatch ?path ?gestures) = None" by (rule conjunct1)
  note c3 = inst [THEN conjunct2, THEN conjunct2, THEN conjunct1]
  have mem: "(''0-0'', ?w) \<in> set (toBeDispatched ?path ?gestures)" by (simp only: sel) simp
  from bspec [OF c3 mem]
  have "\<exists>i<length ?gestures. ?gestures ! i = ?w \<and>
         (\<forall>j<length ?gestures. gesture_key (?gestures ! j) = gesture_key ?w \<longrightarrow>
            depth ?path ?w \<le> depth ?path (?gestures ! j) \<and>
            (depth ?path (?gestures ! j) = depth ?path ?w \<longrightarrow> i \<le> j))"
    by (simp only: fst_conv snd_conv)
  then obtain i where
    "\<forall>j<length ?gestures. gesture_key (?gestures ! j) = gesture_key ?w \<longrightarrow>
           depth ?path ?w \<le> depth ?path (?gestures ! j) \<and>
           (depth ?path (?gestures ! j) = depth ?path ?w \<longrightarrow> i \<le> j)"
    by blast
  from this [rule_format, of 0]
  have le: "depth ?path ?w \<le> depth ?path (bound ''outer'' registered_pan False 1)"
    by (simp add: bound_def registered_pan_def)
  from nested tie fwd p0 p1 p3 le none show ?thesis by (intro conjI)
qed


end
